theory Spec2Isabelle
  imports Main "HOL-Library.AList"
begin

section \<open>Python values, dictionaries and exceptions\<close>

text \<open>
  The configuration of a Template is a Python dictionary with string keys whose values are
  JSON-like data, except that the \<^verbatim>\<open>req\<close> entry holds a Request object. A Request object
  is represented by the dictionary it wraps (its \<^verbatim>\<open>_config\<close> attribute).

  A dictionary is an association list in insertion order. Python keeps keys unique; the
  operations below agree with Python's on lists with distinct keys: assignment replaces the
  value of a present key in place and appends a new key at the end.
\<close>

datatype pyval =
    PNone
  | PBool bool
  | PInt int
  | PStr string
  | PList "pyval list"
  | PDict "(string \<times> pyval) list"
  | PRequest pyval

type_synonym pydict = "(string \<times> pyval) list"

datatype error =
    NameError string
  | KeyError string
  | AttributeError string
  | IndexError
  | TypeError
  | JSONDecodeError
  | ValidationError string
  | UnexpectedManagementAPIResponse string

definition dict_keys :: "pydict \<Rightarrow> string list" where
  "dict_keys d = map fst d"

definition dict_has :: "string \<Rightarrow> pydict \<Rightarrow> bool" where
  "dict_has k d = (k \<in> set (dict_keys d))"

definition dict_get :: "pydict \<Rightarrow> string \<Rightarrow> error + pyval" where
  "dict_get d k = (case map_of d k of None \<Rightarrow> Inl (KeyError k) | Some v \<Rightarrow> Inr v)"

definition dict_set :: "string \<Rightarrow> pyval \<Rightarrow> pydict \<Rightarrow> pydict" where
  "dict_set k v d = AList.update k v d"

definition dict_del :: "string \<Rightarrow> pydict \<Rightarrow> error + pydict" where
  "dict_del k d = (if dict_has k d then Inr (AList.delete k d) else Inl (KeyError k))"

text \<open>Python's \<^verbatim>\<open>x is not None\<close>: \<^verbatim>\<open>None\<close> is a single object.\<close>

definition is_not_None :: "pyval \<Rightarrow> bool" where
  "is_not_None v = (v \<noteq> PNone)"

section \<open>The Template class\<close>

record template =
  config :: pydict
  etag :: pyval

text \<open>
  Modelled from the spec: the module \<^verbatim>\<open>marklogic.utilities.validators\<close> is not among
  the sources. The spec says that validation of a constrained field raises a custom
  validation error with no recovery, so \<^verbatim>\<open>validate_custom\<close> raises that error with the
  message it is given.
\<close>

definition validate_custom :: "string \<Rightarrow> error + unit" where
  "validate_custom msg = Inl (ValidationError msg)"

text \<open>
  Modelled from the spec: the Request class (\<^verbatim>\<open>marklogic.models.certificate.request\<close>)
  is not among the sources. The spec describes every model class as a wrapper of a
  dictionary-like configuration with marshal and unmarshal, so \<^verbatim>\<open>Request.unmarshal\<close>
  wraps the structure it is given as the \<^verbatim>\<open>_config\<close> of a new Request.
\<close>

definition Request_unmarshal :: "pyval \<Rightarrow> pyval" where
  "Request_unmarshal c = PRequest c"

subsection \<open>Construction\<close>

text \<open>
  \<^verbatim>\<open>__init__(name, description, cert_request, key_type='rsa', key_length=None,
  pass_phrase=None)\<close>. The certificate request is passed as the dictionary the Request
  wraps, so \<^verbatim>\<open>assert_type\<close> succeeds; an optional argument is \<^term>\<open>None\<close> when the
  caller omits it. The assignment of the pass phrase names \<^verbatim>\<open>optoins\<close>, which is bound
  nowhere, so that line raises NameError.
\<close>

definition Template_init ::
  "pyval \<Rightarrow> pyval \<Rightarrow> pyval \<Rightarrow> pyval option \<Rightarrow> pyval option \<Rightarrow> pyval option
    \<Rightarrow> error + template" where
  "Template_init name description cert_request key_type_arg key_length_arg pass_phrase_arg =
    (let key_type = (case key_type_arg of None \<Rightarrow> PStr ''rsa'' | Some v \<Rightarrow> v);
         key_length = (case key_length_arg of None \<Rightarrow> PNone | Some v \<Rightarrow> v);
         pass_phrase = (case pass_phrase_arg of None \<Rightarrow> PNone | Some v \<Rightarrow> v);
         cfg = [(''template-name'', name),
                (''template-description'', description),
                (''req'', PRequest cert_request)];
         cfg = (if is_not_None key_type then dict_set ''key-type'' key_type cfg else cfg)
     in if is_not_None key_length \<or> is_not_None pass_phrase then
          (let options = [];
               options = (if is_not_None key_length
                          then dict_set ''key-length'' key_length options else options)
           in if is_not_None pass_phrase then Inl (NameError ''optoins'')
              else Inr \<lparr>config = dict_set ''options'' (PDict options) cfg, etag = PNone\<rparr>)
        else Inr \<lparr>config = cfg, etag = PNone\<rparr>)"

subsection \<open>Accessors\<close>

text \<open>
  \<^verbatim>\<open>set_key_type\<close> tests its argument with \<^verbatim>\<open>is not\<close> against the string constant
  \<^verbatim>\<open>'rsa'\<close> of the method's code: a comparison of object identity, not of contents. The
  argument is therefore an object, a value together with its identity; \<open>rsa_literal\<close> is
  the constant's object. Distinct objects may hold equal strings: a string computed at run
  time (read from a command line or a JSON document, or concatenated) is not the constant.
\<close>

record pyobject =
  obj_id :: nat
  obj_value :: pyval

definition rsa_literal :: pyobject where
  "rsa_literal = \<lparr>obj_id = 0, obj_value = PStr ''rsa''\<rparr>"

definition is_not :: "pyobject \<Rightarrow> pyobject \<Rightarrow> bool" where
  "is_not a b = (obj_id a \<noteq> obj_id b)"

definition key_type_message :: string where
  "key_type_message = ''The key-type must be '' @ [CHR 0x27] @ ''rsa'' @ [CHR 0x27]"

definition set_key_type :: "pyobject \<Rightarrow> template \<Rightarrow> error + template" where
  "set_key_type val t =
    (case (if is_not val rsa_literal then validate_custom key_type_message else Inr ()) of
       Inl e \<Rightarrow> Inl e
     | Inr _ \<Rightarrow> Inr (t\<lparr>config := dict_set ''key-type'' (obj_value val) (config t)\<rparr>))"

definition template_id :: "template \<Rightarrow> pyval" where
  "template_id t =
    (if dict_has ''template-id'' (config t)
     then (case map_of (config t) ''template-id'' of Some v \<Rightarrow> v | None \<Rightarrow> PNone)
     else PNone)"

definition template_version :: "template \<Rightarrow> pyval" where
  "template_version t =
    (if dict_has ''template-version'' (config t)
     then (case map_of (config t) ''template-version'' of Some v \<Rightarrow> v | None \<Rightarrow> PNone)
     else PNone)"

definition key_type :: "template \<Rightarrow> pyval" where
  "key_type t =
    (if dict_has ''key-type'' (config t)
     then (case map_of (config t) ''key-type'' of Some v \<Rightarrow> v | None \<Rightarrow> PNone)
     else PNone)"

subsection \<open>marshal and unmarshal\<close>

text \<open>
  \<^verbatim>\<open>marshal\<close> fills a fresh dictionary in one pass over the keys of the configuration.
  Reading \<^verbatim>\<open>_config\<close> from a value that is not a Request raises AttributeError.
\<close>

fun marshal_loop :: "pydict \<Rightarrow> string list \<Rightarrow> pydict \<Rightarrow> error + pydict" where
  "marshal_loop cfg [] struct = Inr struct"
| "marshal_loop cfg (key # keys) struct =
    (case dict_get cfg key of
       Inl e \<Rightarrow> Inl e
     | Inr v \<Rightarrow>
        (if key = ''req'' then
           (case v of
              PRequest c \<Rightarrow> marshal_loop cfg keys (dict_set key c struct)
            | _ \<Rightarrow> Inl (AttributeError ''_config''))
         else marshal_loop cfg keys (dict_set key v struct)))"

definition marshal :: "template \<Rightarrow> error + pydict" where
  "marshal t = marshal_loop (config t) (dict_keys (config t)) []"

text \<open>
  \<^verbatim>\<open>unmarshal\<close> builds a placeholder Template (whose construction leaves
  \<^verbatim>\<open>etag = None\<close>), replaces its configuration by the one given and wraps the
  \<^verbatim>\<open>req\<close> entry, when there is one.
\<close>

definition unmarshal :: "pydict \<Rightarrow> template" where
  "unmarshal cfg =
    (let result = \<lparr>config = cfg, etag = PNone\<rparr>
     in if dict_has ''req'' (config result)
        then (case dict_get (config result) ''req'' of
                Inr r \<Rightarrow> result\<lparr>config := dict_set ''req'' (Request_unmarshal r) (config result)\<rparr>
              | Inl e \<Rightarrow> result)
        else result)"

section \<open>The HTTP operations of Template\<close>

text \<open>
  A request made through the \<^verbatim>\<open>requests\<close> library is a record of what the call passes;
  the response carries the status code, the body text and the headers (held under
  lower-case names). The server is a function of the requests sent so far and of the
  current request, so the log of sent requests is the state that an operation threads.
  An operation returns what the call returns or raises, the Template afterwards, and the
  log afterwards. The built-ins \<^verbatim>\<open>str\<close> (as applied by \<^verbatim>\<open>str.format\<close>) and
  \<^verbatim>\<open>json.loads\<close> (\<^term>\<open>None\<close> when it raises) are parameters. The server always
  answers: an exception raised inside the library, such as a refused connection, is not
  part of the model.
\<close>

datatype http_method = GET | POST | PUT | DELETE

record connection =
  host :: string
  management_port :: pyval
  auth :: "string \<times> string"

record http_request =
  rq_method :: http_method
  rq_uri :: string
  rq_json :: "pydict option"
  rq_auth :: "string \<times> string"
  rq_headers :: "(string \<times> string) list"

record http_response =
  status_code :: int
  resp_text :: string
  headers :: "(string \<times> string) list"

record runtime =
  str_of :: "pyval \<Rightarrow> string"
  json_loads :: "string \<Rightarrow> pyval option"

type_synonym server = "http_request list \<Rightarrow> http_request \<Rightarrow> http_response"

type_synonym 'a outcome = "(error + 'a) \<times> template \<times> http_request list"

definition accept_json :: "(string \<times> string) list" where
  "accept_json = [(''accept'', ''application/json'')]"

definition templates_uri :: "runtime \<Rightarrow> connection \<Rightarrow> string" where
  "templates_uri rt conn =
     ''http://'' @ host conn @ '':'' @ str_of rt (management_port conn)
       @ ''/manage/v2/certificate-templates''"

definition template_uri :: "runtime \<Rightarrow> connection \<Rightarrow> template \<Rightarrow> string" where
  "template_uri rt conn t = templates_uri rt conn @ ''/'' @ str_of rt (template_id t)"

definition location_properties_uri :: "runtime \<Rightarrow> connection \<Rightarrow> string \<Rightarrow> string" where
  "location_properties_uri rt conn loc =
     ''http://'' @ host conn @ '':'' @ str_of rt (management_port conn) @ loc @ ''/properties''"

subsection \<open>create\<close>

definition create_post :: "runtime \<Rightarrow> connection \<Rightarrow> pydict \<Rightarrow> http_request" where
  "create_post rt conn struct =
     \<lparr>rq_method = POST, rq_uri = templates_uri rt conn, rq_json = Some struct,
      rq_auth = auth conn, rq_headers = []\<rparr>"

definition create_get :: "runtime \<Rightarrow> connection \<Rightarrow> string \<Rightarrow> http_request" where
  "create_get rt conn loc =
     \<lparr>rq_method = GET, rq_uri = location_properties_uri rt conn loc, rq_json = None,
      rq_auth = auth conn, rq_headers = accept_json\<rparr>"

text \<open>
  \<^verbatim>\<open>create\<close> hands whatever \<^verbatim>\<open>json.loads\<close> returned to \<^verbatim>\<open>Template.unmarshal\<close>,
  which stores it as the configuration and then evaluates \<^verbatim>\<open>'req' in config\<close>. For a
  dictionary this is \<open>unmarshal\<close>. For None, a truth value or a number the membership
  test raises TypeError. For a string (substring test) or a list (element test) that
  holds \<^verbatim>\<open>req\<close>, the subscript \<^verbatim>\<open>config['req']\<close> raises TypeError. A string or a list
  that does not hold it becomes the configuration of the result: a Template that the
  record of this theory, whose configurations are dictionaries, does not represent. For
  that case, and for a Request object (which \<^verbatim>\<open>json.loads\<close> never returns), the result
  is \<^term>\<open>None\<close>, and so is that of \<^verbatim>\<open>create\<close>.
\<close>

fun py_str_contains :: "string \<Rightarrow> string \<Rightarrow> bool" where
  "py_str_contains sub [] = (sub = [])"
| "py_str_contains sub (c # cs) =
    (take (length sub) (c # cs) = sub \<or> py_str_contains sub cs)"

fun unmarshal_value :: "pyval \<Rightarrow> (error + template) option" where
  "unmarshal_value (PDict d) = Some (Inr (unmarshal d))"
| "unmarshal_value PNone = Some (Inl TypeError)"
| "unmarshal_value (PBool b) = Some (Inl TypeError)"
| "unmarshal_value (PInt i) = Some (Inl TypeError)"
| "unmarshal_value (PStr s) =
    (if py_str_contains ''req'' s then Some (Inl TypeError) else None)"
| "unmarshal_value (PList xs) =
    (if PStr ''req'' \<in> set xs then Some (Inl TypeError) else None)"
| "unmarshal_value (PRequest c) = None"

definition create :: "runtime \<Rightarrow> server \<Rightarrow> http_request list \<Rightarrow> connection \<Rightarrow> template
    \<Rightarrow> template outcome option" where
  "create rt srv log conn t =
    (case marshal t of
       Inl e \<Rightarrow> Some (Inl e, t, log)
     | Inr struct \<Rightarrow>
        (let rq = create_post rt conn struct;
             response = srv log rq;
             log = log @ [rq]
         in if status_code response \<notin> set [200, 201, 204]
            then Some (Inl (UnexpectedManagementAPIResponse (resp_text response)), t, log)
            else
              (case map_of (headers response) ''location'' of
                 None \<Rightarrow> Some (Inl (KeyError ''location''), t, log)
               | Some loc \<Rightarrow>
                  (let rq = create_get rt conn loc;
                       response = srv log rq;
                       log = log @ [rq]
                   in if status_code response = 200
                      then (case json_loads rt (resp_text response) of
                              None \<Rightarrow> Some (Inl JSONDecodeError, t, log)
                            | Some body \<Rightarrow>
                               (case unmarshal_value body of
                                  None \<Rightarrow> None
                                | Some (Inl e) \<Rightarrow> Some (Inl e, t, log)
                                | Some (Inr result) \<Rightarrow>
                                   (let t = t\<lparr>config := config result\<rparr>
                                    in Some (Inr t, t, log))))
                      else Some (Inl (UnexpectedManagementAPIResponse (resp_text response)),
                                 t, log)))))"

subsection \<open>update and delete\<close>

definition update_put :: "runtime \<Rightarrow> connection \<Rightarrow> template \<Rightarrow> pydict \<Rightarrow> http_request" where
  "update_put rt conn t payload =
     \<lparr>rq_method = PUT, rq_uri = template_uri rt conn t @ ''/properties'',
      rq_json = Some payload, rq_auth = auth conn, rq_headers = []\<rparr>"

definition update :: "runtime \<Rightarrow> server \<Rightarrow> http_request list \<Rightarrow> connection \<Rightarrow> template
    \<Rightarrow> template outcome" where
  "update rt srv log conn t =
    (case marshal t of
       Inl e \<Rightarrow> (Inl e, t, log)
     | Inr payload \<Rightarrow>
        (case dict_del ''template-version'' payload of
           Inl e \<Rightarrow> (Inl e, t, log)
         | Inr payload \<Rightarrow>
            (case dict_del ''template-id'' payload of
               Inl e \<Rightarrow> (Inl e, t, log)
             | Inr payload \<Rightarrow>
                (let rq = update_put rt conn t payload;
                     response = srv log rq;
                     log = log @ [rq]
                 in if status_code response \<notin> set [200, 204]
                    then (Inl (UnexpectedManagementAPIResponse (resp_text response)), t, log)
                    else (Inr t, t, log)))))"

definition delete_request :: "runtime \<Rightarrow> connection \<Rightarrow> template \<Rightarrow> http_request" where
  "delete_request rt conn t =
     \<lparr>rq_method = DELETE, rq_uri = template_uri rt conn t, rq_json = None,
      rq_auth = auth conn, rq_headers = []\<rparr>"

definition delete :: "runtime \<Rightarrow> server \<Rightarrow> http_request list \<Rightarrow> connection \<Rightarrow> template
    \<Rightarrow> template outcome" where
  "delete rt srv log conn t =
    (let rq = delete_request rt conn t;
         response = srv log rq;
         log = log @ [rq]
     in if status_code response \<notin> set [200, 204] \<and> \<not> status_code response = 404
        then (Inl (UnexpectedManagementAPIResponse (resp_text response)), t, log)
        else (case dict_del ''template-id'' (config t) of
                Inl e \<Rightarrow> (Inl e, t, log)
              | Inr c \<Rightarrow> (let t = t\<lparr>config := c\<rparr> in (Inr t, t, log))))"

subsection \<open>Operations posted to the template's resource\<close>

text \<open>
  \<^verbatim>\<open>valid_for\<close> is an integer, so \<^verbatim>\<open>assert_type(valid_for, int)\<close> returns it;
  \<^verbatim>\<open>if_necessary\<close> is the truth value of the argument.
\<close>

definition operation_post :: "runtime \<Rightarrow> connection \<Rightarrow> template \<Rightarrow> pydict \<Rightarrow> http_request" where
  "operation_post rt conn t payload =
     \<lparr>rq_method = POST, rq_uri = template_uri rt conn t, rq_json = Some payload,
      rq_auth = auth conn, rq_headers = accept_json\<rparr>"

definition generate_template_certificate_authority ::
  "runtime \<Rightarrow> server \<Rightarrow> http_request list \<Rightarrow> connection \<Rightarrow> template \<Rightarrow> int
    \<Rightarrow> template outcome" where
  "generate_template_certificate_authority rt srv log conn t valid_for =
    (let payload = [(''operation'', PStr ''generate-template-certificate-authority''),
                    (''valid-for'', PInt valid_for)];
         rq = operation_post rt conn t payload;
         response = srv log rq;
         log = log @ [rq]
     in if status_code response \<noteq> 201
        then (Inl (UnexpectedManagementAPIResponse (resp_text response)), t, log)
        else (Inr t, t, log))"

definition generate_temporary_certificate ::
  "runtime \<Rightarrow> server \<Rightarrow> http_request list \<Rightarrow> connection \<Rightarrow> template \<Rightarrow> int
    \<Rightarrow> pyval \<Rightarrow> pyval \<Rightarrow> pyval \<Rightarrow> bool \<Rightarrow> template outcome" where
  "generate_temporary_certificate rt srv log conn t valid_for common_name dns_name ip_addr
      if_necessary =
    (let payload = [(''operation'', PStr ''generate-temporary-certificate''),
                    (''valid-for'', PInt valid_for),
                    (''common-name'', common_name),
                    (''dns-name'', dns_name),
                    (''ip-addr'', ip_addr),
                    (''if-necessary'', PStr (if if_necessary then ''true'' else ''false''))];
         rq = operation_post rt conn t payload;
         response = srv log rq;
         log = log @ [rq]
     in if status_code response \<noteq> 201
        then (Inl (UnexpectedManagementAPIResponse (resp_text response)), t, log)
        else (Inr t, t, log))"

text \<open>
  \<^verbatim>\<open>get_certificate\<close> builds its payload and then evaluates the condition
  \<^verbatim>\<open>ip-addr is not None\<close>, the difference of the names \<^verbatim>\<open>ip\<close> and \<^verbatim>\<open>addr\<close>.
  Neither is a parameter, a local, a global of the module or a built-in, so the
  evaluation of \<^verbatim>\<open>ip\<close> raises NameError; \<open>lookup_name\<close> is the lookup of a name
  among those the method can see. The statements after the condition (the POST and
  the branches on its status) are written out as the source has them.
\<close>

definition lookup_name :: "(string \<times> pyval) list \<Rightarrow> string \<Rightarrow> error + pyval" where
  "lookup_name scope n = (case map_of scope n of None \<Rightarrow> Inl (NameError n) | Some v \<Rightarrow> Inr v)"

definition get_certificate ::
  "runtime \<Rightarrow> server \<Rightarrow> http_request list \<Rightarrow> connection \<Rightarrow> template
    \<Rightarrow> pyval \<Rightarrow> pyval \<Rightarrow> pyval \<Rightarrow> pyval outcome" where
  "get_certificate rt srv log conn t common_name dns_name ip_addr =
    (let scope = [(''common_name'', common_name), (''dns_name'', dns_name),
                  (''ip_addr'', ip_addr)];
         payload = [(''operation'', PStr ''get-certificate''),
                    (''common-name'', common_name)];
         payload = (if is_not_None dns_name then dict_set ''dns-name'' dns_name payload
                    else payload)
     in case lookup_name scope ''ip'' of
          Inl e \<Rightarrow> (Inl e, t, log)
        | Inr ip \<Rightarrow>
           (case lookup_name scope ''addr'' of
              Inl e \<Rightarrow> (Inl e, t, log)
            | Inr addr \<Rightarrow>
               \<comment> \<open>not reached; a difference \<^verbatim>\<open>ip - addr\<close>, where it has a value, is not None\<close>
               (let payload = dict_set ''ip-addr'' ip_addr payload;
                    rq = operation_post rt conn t payload;
                    response = srv log rq;
                    log = log @ [rq]
                in if status_code response = 200
                   then (case json_loads rt (resp_text response) of
                           None \<Rightarrow> (Inl JSONDecodeError, t, log)
                         | Some v \<Rightarrow> (Inr v, t, log))
                   else if status_code response = 404 then (Inr PNone, t, log)
                   else (Inl (UnexpectedManagementAPIResponse (resp_text response)),
                         t, log))))"

definition get_certificates_for_template ::
  "runtime \<Rightarrow> server \<Rightarrow> http_request list \<Rightarrow> connection \<Rightarrow> template \<Rightarrow> pyval outcome" where
  "get_certificates_for_template rt srv log conn t =
    (let payload = [(''operation'', PStr ''get-certificates-for-template'')];
         rq = operation_post rt conn t payload;
         response = srv log rq;
         log = log @ [rq]
     in if status_code response = 200
        then (case json_loads rt (resp_text response) of
                None \<Rightarrow> (Inl JSONDecodeError, t, log)
              | Some v \<Rightarrow> (Inr v, t, log))
        else if status_code response = 404 then (Inr PNone, t, log)
        else (Inl (UnexpectedManagementAPIResponse (resp_text response)), t, log))"

section \<open>The command line dispatcher: MMA.run\<close>

definition startswith :: "string \<Rightarrow> string \<Rightarrow> bool" where
  "startswith tok pre = (take (length pre) tok = pre)"

text \<open>
  The loop of \<^verbatim>\<open>run\<close> over the tokens, with its four variables. \<^verbatim>\<open>"=" in tok\<close> is
  the occurrence of the character in the token.
\<close>

fun normalize_loop ::
  "string list \<Rightarrow> string list \<Rightarrow> string list \<Rightarrow> string list \<Rightarrow> bool
    \<Rightarrow> string list \<times> string list \<times> string list" where
  "normalize_loop [] options params positional optarg = (options, params, positional)"
| "normalize_loop (tok # rest) options params positional optarg =
    (if optarg then normalize_loop rest (options @ [tok]) params positional False
     else if startswith tok ''-''
       then normalize_loop rest (options @ [tok]) params positional (tok \<noteq> ''--debug'')
     else if CHR ''='' \<in> set tok
       then normalize_loop rest options (params @ [tok]) positional False
     else normalize_loop rest options params (positional @ [tok]) False)"

definition normalize :: "string list \<Rightarrow> string list \<times> string list \<times> string list" where
  "normalize argv = normalize_loop argv [] [] [] False"

text \<open>
  What \<^verbatim>\<open>cli.command_template(command)\<close> returns is a dictionary whose values are
  parsers, callables or dictionaries of the same kind; the table itself
  (\<^verbatim>\<open>marklogic.cli.template\<close>) is a parameter of \<^verbatim>\<open>run\<close>.
\<close>

datatype 'p templ_val = TParser 'p | TCode | TDict "(string \<times> 'p templ_val) list"

type_synonym 'p templ = "(string \<times> 'p templ_val) list"

text \<open>
  \<^verbatim>\<open>run\<close> as far as the call \<^verbatim>\<open>parser.parse_args(argv)\<close>: it prints a message and
  exits with status 1, raises, or hands the rebuilt \<^verbatim>\<open>argv\<close> to the parser it
  resolved.
\<close>

datatype 'p run_outcome =
    Usage
  | Unrecognized string
  | NotRecognized string
  | NoArtifact string string
  | Raised error
  | ParseArgs "'p templ_val" "string list"

definition empty_artifact_commands :: "string list" where
  "empty_artifact_commands =
     [''start'', ''status'', ''stop'', ''init'', ''save'', ''switch'', ''clear'', ''log'']"

definition server_types :: "string list" where
  "server_types = [''http'', ''xdbc'', ''odbc'', ''webdav'']"

text \<open>The adjustment for a server type given as the artifact.\<close>

definition server_case ::
  "string \<Rightarrow> string option \<Rightarrow> string list \<Rightarrow> string list
    \<Rightarrow> error + (string option \<times> string list \<times> string list)" where
  "server_case command artifact options positional =
    (case artifact of
       None \<Rightarrow> Inr (artifact, options, positional)
     | Some a \<Rightarrow>
        if a \<in> set server_types then
          (let stype = a;
               artifact = (if command = ''list'' then ''servers'' else ''server'');
               positional = positional[1 := artifact]
           in if length positional \<le> 2 then Inl IndexError
              else
                (let positional = (if positional ! 2 = artifact
                                   then take 2 positional @ drop 3 positional
                                   else positional)
                 in Inr (Some artifact, options @ [''--type'', stype], positional)))
        else Inr (artifact, options, positional))"

text \<open>The adjustment for \<^verbatim>\<open>stop\<close> without an artifact.\<close>

definition stop_case ::
  "string \<Rightarrow> string option \<Rightarrow> string list \<Rightarrow> string option \<times> string list" where
  "stop_case command artifact positional =
    (if command = ''stop'' \<and> artifact = None
     then (Some ''host'', positional @ [''host''])
     else (artifact, positional))"

definition resolve_parser ::
  "'p templ \<Rightarrow> string \<Rightarrow> string option \<Rightarrow> string list \<Rightarrow> 'p run_outcome" where
  "resolve_parser templ command artifact argv =
    (case artifact of
       None \<Rightarrow>
        (case map_of templ ''parser'' of
           Some parser \<Rightarrow> ParseArgs parser argv
         | None \<Rightarrow> NotRecognized command)
     | Some a \<Rightarrow>
        (case map_of templ a of
           Some (TDict d) \<Rightarrow>
            (case map_of d ''parser'' of
               Some parser \<Rightarrow> ParseArgs parser argv
             | None \<Rightarrow> Raised (KeyError ''parser''))
         | Some _ \<Rightarrow> Raised TypeError
         | None \<Rightarrow> NoArtifact command a))"

definition dispatch ::
  "(string \<Rightarrow> 'p templ option) \<Rightarrow> string list \<times> string list \<times> string list
    \<Rightarrow> 'p run_outcome" where
  "dispatch command_template toks =
    (case toks of (options, params, positional) \<Rightarrow>
      (case positional of
         [] \<Rightarrow> Usage
       | command # _ \<Rightarrow>
          (let artifact = (if 1 < length positional then Some (positional ! 1) else None)
           in if artifact = None \<and> command \<notin> set empty_artifact_commands then Usage
              else
                (case server_case command artifact options positional of
                   Inl e \<Rightarrow> Raised e
                 | Inr (artifact, options, positional) \<Rightarrow>
                    (case stop_case command artifact positional of
                       (artifact, positional) \<Rightarrow>
                        (let argv = options @ positional @ params
                         in case command_template command of
                              None \<Rightarrow> Unrecognized command
                            | Some templ \<Rightarrow> resolve_parser templ command artifact argv))))))"

definition run :: "(string \<Rightarrow> 'p templ option) \<Rightarrow> string list \<Rightarrow> 'p run_outcome" where
  "run command_template argv = dispatch command_template (normalize argv)"

section \<open>Well-formed templates and the shapes of marshalled data\<close>

text \<open>
  The constructor, \<^verbatim>\<open>set_req\<close> and \<^verbatim>\<open>unmarshal\<close> only ever store a Request under
  \<^verbatim>\<open>req\<close>, and a Python dictionary has each key once. \<open>flatten_entry\<close> and
  \<open>wrap_entry\<close> describe, entry by entry, what the specification says of
  \<^verbatim>\<open>marshal\<close> and \<^verbatim>\<open>unmarshal\<close>.
\<close>

fun request_config :: "pyval \<Rightarrow> pyval" where
  "request_config (PRequest c) = c"
| "request_config v = v"

definition flatten_entry :: "string \<times> pyval \<Rightarrow> string \<times> pyval" where
  "flatten_entry kv = (fst kv, if fst kv = ''req'' then request_config (snd kv) else snd kv)"

definition wrap_entry :: "string \<times> pyval \<Rightarrow> string \<times> pyval" where
  "wrap_entry kv = (fst kv, if fst kv = ''req'' then PRequest (snd kv) else snd kv)"

definition request_ok :: "pydict \<Rightarrow> bool" where
  "request_ok cfg =
     (case map_of cfg ''req'' of None \<Rightarrow> True | Some (PRequest c) \<Rightarrow> True | Some _ \<Rightarrow> False)"

definition template_ok :: "template \<Rightarrow> bool" where
  "template_ok t = (distinct (dict_keys (config t)) \<and> request_ok (config t))"

section \<open>The classification of tokens, described\<close>

text \<open>
  The loop's result described by recursion on the tokens: an option that is not
  \<^verbatim>\<open>--debug\<close> takes the token after it, whatever that token is, as its argument; a
  token that is not taken so is an option if it begins with \<^verbatim>\<open>-\<close>, else a parameter
  if it contains \<^verbatim>\<open>=\<close>, else positional.
\<close>

fun classify_tokens :: "string list \<Rightarrow> string list \<times> string list \<times> string list" where
  "classify_tokens [] = ([], [], [])"
| "classify_tokens (tok # rest) =
    (if startswith tok ''-'' then
       (if tok \<noteq> ''--debug'' then
          (case rest of
             [] \<Rightarrow> ([tok], [], [])
           | arg # rest' \<Rightarrow>
              (case classify_tokens rest' of
                 (options, params, positional) \<Rightarrow> (tok # arg # options, params, positional)))
        else
          (case classify_tokens rest of
             (options, params, positional) \<Rightarrow> (tok # options, params, positional)))
     else if CHR ''='' \<in> set tok then
       (case classify_tokens rest of
          (options, params, positional) \<Rightarrow> (options, tok # params, positional))
     else
       (case classify_tokens rest of
          (options, params, positional) \<Rightarrow> (options, params, tok # positional)))"

text \<open>
  \<open>pending\<close>: the tokens end with an option that still waits for its argument.
  \<open>separate_classes\<close>: two runs of tokens have no class in common.
\<close>

fun pending :: "string list \<Rightarrow> bool" where
  "pending [] = False"
| "pending (tok # rest) =
    (if startswith tok ''-'' \<and> tok \<noteq> ''--debug''
     then (case rest of [] \<Rightarrow> True | arg # rest' \<Rightarrow> pending rest')
     else pending rest)"

definition separate_classes :: "string list \<Rightarrow> string list \<Rightarrow> bool" where
  "separate_classes u v =
    (case classify_tokens u of (o1, p1, q1) \<Rightarrow>
       (case classify_tokens v of (o2, p2, q2) \<Rightarrow>
          (o1 = [] \<or> o2 = []) \<and> (p1 = [] \<or> p2 = []) \<and> (q1 = [] \<or> q2 = [])))"

section \<open>Sample data\<close>

definition sample_config :: pydict where
  "sample_config =
    [(''template-name'', PStr ''t1''),
     (''template-description'', PStr ''first''),
     (''req'', PRequest (PDict [(''version'', PStr ''0'')])),
     (''key-type'', PStr ''rsa''),
     (''template-id'', PStr ''123''),
     (''template-version'', PInt 2)]"

definition sample_template :: template where
  "sample_template = \<lparr>config = sample_config, etag = PNone\<rparr>"

definition sample_properties :: pydict where
  "sample_properties =
    [(''template-id'', PStr ''123''),
     (''template-name'', PStr ''t1''),
     (''template-description'', PStr ''first''),
     (''template-version'', PInt 0),
     (''key-type'', PStr ''rsa''),
     (''req'', PDict [(''version'', PStr ''0'')])]"

definition sample_runtime :: runtime where
  "sample_runtime =
    \<lparr>str_of = (\<lambda>v. case v of PStr s \<Rightarrow> s | PInt i \<Rightarrow> ''8002'' | _ \<Rightarrow> ''None''),
     json_loads = (\<lambda>s. if s = ''{properties of 123}''
                        then Some (PDict sample_properties) else None)\<rparr>"

definition sample_connection :: connection where
  "sample_connection =
    \<lparr>host = ''localhost'', management_port = PInt 8002, auth = (''admin'', ''admin'')\<rparr>"

definition respond :: "http_response \<Rightarrow> server" where
  "respond r log rq = r"

definition unsaved_template :: template where
  "unsaved_template =
    \<lparr>config = [(''template-name'', PStr ''t1''),
                (''template-description'', PStr ''first''),
                (''req'', PRequest (PDict [(''version'', PStr ''0'')])),
                (''key-type'', PStr ''rsa'')],
     etag = PNone\<rparr>"

definition created_server :: server where
  "created_server log rq =
    (if rq_method rq = POST
     then \<lparr>status_code = 201, resp_text = [],
           headers = [(''location'', ''/manage/v2/certificate-templates/123'')]\<rparr>
     else \<lparr>status_code = 200, resp_text = ''{properties of 123}'', headers = []\<rparr>)"

definition refetch_fails_server :: server where
  "refetch_fails_server log rq =
    (if rq_method rq = POST
     then \<lparr>status_code = 201, resp_text = [],
           headers = [(''location'', ''/manage/v2/certificate-templates/123'')]\<rparr>
     else \<lparr>status_code = 500, resp_text = ''internal error'', headers = []\<rparr>)"

definition sample_table :: "string \<Rightarrow> nat templ option" where
  "sample_table command =
    (if command = ''list''
     then Some [(''forests'', TDict [(''parser'', TParser 1), (''code'', TCode)]),
                (''servers'', TDict [(''parser'', TParser 2), (''code'', TCode)])]
     else if command = ''stop''
     then Some [(''host'', TDict [(''parser'', TParser 3), (''code'', TCode)])]
     else None)"

section \<open>Properties of marshal and unmarshal\<close>

lemma update_fresh: "k \<notin> set (map fst xs) \<Longrightarrow> AList.update k v xs = xs @ [(k, v)]"
  by (induction xs) auto

lemma flatten_entry_keys: "map fst (map flatten_entry xs) = map fst xs"
  by (induction xs) (simp_all add: flatten_entry_def)

lemma marshal_loop_map:
  assumes "distinct (map fst cfg)" and "request_ok cfg"
  shows "cfg = done @ todo \<Longrightarrow>
      marshal_loop cfg (map fst todo) (map flatten_entry done) = Inr (map flatten_entry cfg)"
proof (induction todo arbitrary: "done")
  case Nil
  then show ?case by simp
next
  case (Cons kv rest)
  obtain k v where kv: "kv = (k, v)" by (cases kv)
  have mem: "(k, v) \<in> set cfg" using Cons.prems kv by simp
  have look: "map_of cfg k = Some v" using assms(1) mem by simp
  have "k \<notin> set (map fst done)" using assms(1) Cons.prems kv by auto
  then have fresh: "k \<notin> set (map fst (map flatten_entry done))"
    unfolding flatten_entry_keys .
  have step: "cfg = (done @ [kv]) @ rest" using Cons.prems by simp
  have val: "flatten_entry kv = (k, if k = ''req'' then request_config v else v)"
    by (simp add: flatten_entry_def kv)
  have upd: "dict_set k (if k = ''req'' then request_config v else v) (map flatten_entry done)
      = map flatten_entry (done @ [kv])"
    using update_fresh[OF fresh] by (simp add: dict_set_def val)
  have get: "dict_get cfg k = Inr v" using look by (simp add: dict_get_def)
  show ?case
  proof (cases "k = ''req''")
    case True
    then obtain c where "v = PRequest c"
      using look assms(2) by (auto simp: request_ok_def split: pyval.splits)
    then show ?thesis
      using Cons.IH[OF step] upd True get by (simp add: kv)
  next
    case False
    then show ?thesis
      using Cons.IH[OF step] upd get by (simp add: kv)
  qed
qed

lemma marshal_ok:
  assumes "template_ok t"
  shows "marshal t = Inr (map flatten_entry (config t))"
  using marshal_loop_map[of "config t" "[]" "config t"] assms
  by (simp add: marshal_def dict_keys_def template_ok_def)

lemma map_absent_key:
  "k \<notin> fst ` set xs \<Longrightarrow>
     map (\<lambda>kv. (fst kv, if fst kv = k then g (snd kv) else snd kv)) xs = xs"
  by (induction xs) auto

lemma update_map_distinct:
  "distinct (map fst xs) \<Longrightarrow> map_of xs k = Some v \<Longrightarrow>
     AList.update k (f v) xs = map (\<lambda>kv. (fst kv, if fst kv = k then f (snd kv) else snd kv)) xs"
  by (induction xs) (auto simp: map_absent_key)

lemma unmarshal_wrap:
  assumes "distinct (dict_keys cfg)"
  shows "config (unmarshal cfg) = map wrap_entry cfg"
proof (cases "map_of cfg ''req''")
  case None
  then have absent: "''req'' \<notin> fst ` set cfg" by (simp add: map_of_eq_None_iff)
  then have "map wrap_entry cfg = cfg"
    using map_absent_key[of "''req''" cfg PRequest] by (simp add: wrap_entry_def[abs_def])
  moreover have "\<not> dict_has ''req'' cfg"
    using absent by (simp add: dict_has_def dict_keys_def)
  ultimately show ?thesis by (simp add: unmarshal_def)
next
  case (Some v)
  then have "dict_has ''req'' cfg"
    by (auto simp: dict_has_def dict_keys_def dest: map_of_SomeD intro: rev_image_eqI)
  moreover have "AList.update ''req'' (PRequest v) cfg = map wrap_entry cfg"
    using update_map_distinct[of cfg "''req''" v PRequest] assms Some
    by (simp add: dict_keys_def wrap_entry_def[abs_def])
  ultimately show ?thesis
    using Some by (simp add: unmarshal_def dict_get_def dict_set_def Request_unmarshal_def)
qed

lemma wrap_flatten_id:
  assumes "distinct (map fst cfg)" and "map_of cfg ''req'' = Some (PRequest r)"
  shows "map wrap_entry (map flatten_entry cfg) = cfg"
proof -
  have "\<And>kv. kv \<in> set cfg \<Longrightarrow> wrap_entry (flatten_entry kv) = kv"
  proof -
    fix kv assume mem: "kv \<in> set cfg"
    obtain k v where kv: "kv = (k, v)" by (cases kv)
    have "map_of cfg k = Some v" using assms(1) mem kv by simp
    then have "k = ''req'' \<Longrightarrow> v = PRequest r" using assms(2) by simp
    then show "wrap_entry (flatten_entry kv) = kv"
      by (auto simp: wrap_entry_def flatten_entry_def kv)
  qed
  then show ?thesis by (simp add: map_idI)
qed

lemma flatten_entry_request:
  assumes "distinct (map fst cfg)" and "map_of cfg ''req'' = Some (PRequest r)"
  shows "map flatten_entry cfg = map (\<lambda>(k, v). (k, if k = ''req'' then r else v)) cfg"
proof (rule map_cong[OF refl])
  fix kv assume mem: "kv \<in> set cfg"
  obtain k v where kv: "kv = (k, v)" by (cases kv)
  have "map_of cfg k = Some v" using assms(1) mem kv by simp
  then have "k = ''req'' \<Longrightarrow> v = PRequest r" using assms(2) by simp
  then show "flatten_entry kv = (case kv of (k, v) \<Rightarrow> (k, if k = ''req'' then r else v))"
    by (auto simp: flatten_entry_def kv)
qed

text \<open>
  C9. For a Template whose configuration holds a Request under \<^verbatim>\<open>req\<close>,
  \<^verbatim>\<open>marshal\<close> returns the configuration with exactly that entry replaced by the
  dictionary the Request wraps; \<^verbatim>\<open>unmarshal\<close> of that result wraps exactly the
  \<^verbatim>\<open>req\<close> entry again, which gives back the configuration, and marshalling the
  unmarshalled Template gives the same result as marshalling the original.
\<close>

theorem marshal_unmarshal_roundtrip:
  assumes "distinct (dict_keys (config t))"
    and "map_of (config t) ''req'' = Some (PRequest r)"
  shows "\<exists>m. marshal t = Inr m
      \<and> m = map (\<lambda>(k, v). (k, if k = ''req'' then r else v)) (config t)
      \<and> config (unmarshal m) = map (\<lambda>(k, v). (k, if k = ''req'' then PRequest v else v)) m
      \<and> config (unmarshal m) = config t
      \<and> marshal (unmarshal m) = marshal t"
proof -
  let ?m = "map flatten_entry (config t)"
  have d: "distinct (map fst (config t))" using assms(1) by (simp add: dict_keys_def)
  have ok: "template_ok t"
    using assms by (simp add: template_ok_def request_ok_def)
  have m: "marshal t = Inr ?m" by (rule marshal_ok[OF ok])
  have dm: "distinct (dict_keys ?m)"
    unfolding dict_keys_def flatten_entry_keys by (rule d)
  have un: "config (unmarshal ?m) = map wrap_entry ?m" by (rule unmarshal_wrap[OF dm])
  have same: "config (unmarshal ?m) = config t"
    using un wrap_flatten_id[OF d assms(2)] by simp
  have again: "marshal (unmarshal ?m) = marshal t"
    using same by (simp add: marshal_def)
  have shape: "?m = map (\<lambda>(k, v). (k, if k = ''req'' then r else v)) (config t)"
    by (rule flatten_entry_request[OF d assms(2)])
  have wshape: "map wrap_entry ?m = map (\<lambda>(k, v). (k, if k = ''req'' then PRequest v else v)) ?m"
    by (simp add: wrap_entry_def case_prod_beta)
  show ?thesis using m un same again shape wshape by metis
qed

theorem marshal_unmarshal_roundtrip_witness:
  "distinct (dict_keys (config sample_template))
   \<and> map_of (config sample_template) ''req'' = Some (PRequest (PDict [(''version'', PStr ''0'')]))
   \<and> (\<exists>m. marshal sample_template = Inr m
      \<and> m = map (\<lambda>(k, v). (k, if k = ''req'' then PDict [(''version'', PStr ''0'')] else v))
               (config sample_template)
      \<and> config (unmarshal m) = map (\<lambda>(k, v). (k, if k = ''req'' then PRequest v else v)) m
      \<and> config (unmarshal m) = config sample_template
      \<and> marshal (unmarshal m) = marshal sample_template)"
  using marshal_unmarshal_roundtrip [of sample_template "PDict [(''version'', PStr ''0'')]"]
  by (simp add: sample_template_def sample_config_def dict_keys_def)

section \<open>Construction and validation\<close>

text \<open>
  C6. The claim is that a Template constructed with a pass phrase that is not None is
  built and \<^verbatim>\<open>pass_phrase()\<close> returns the phrase. On the code no such Template is
  built: whatever the other arguments, the constructor raises NameError at the
  assignment to \<^verbatim>\<open>optoins\<close>.
\<close>

theorem Template_init_pass_phrase_NameError:
  "is_not_None p \<Longrightarrow>
     Template_init name description cert_request key_type_arg key_length_arg (Some p)
       = Inl (NameError ''optoins'')"
  by (simp add: Template_init_def Let_def)

theorem Template_init_pass_phrase_NameError_witness:
  "is_not_None (PStr ''secret'')
   \<and> Template_init (PStr ''t1'') (PStr ''first'') (PDict [(''version'', PStr ''0'')])
         None None (Some (PStr ''secret'')) = Inl (NameError ''optoins'')"
  using Template_init_pass_phrase_NameError
    [of "PStr ''secret''" "PStr ''t1''" "PStr ''first''" "PDict [(''version'', PStr ''0'')]"
        None None]
  by (simp add: is_not_None_def)

text \<open>
  C5. The claim is that \<^verbatim>\<open>set_key_type(v)\<close> returns normally for every \<^verbatim>\<open>v\<close> equal
  to \<^verbatim>\<open>'rsa'\<close>. The code compares identities: an argument that is not the very object
  of the string constant is rejected with the validation error, also when it holds the
  string \<^verbatim>\<open>rsa\<close>.
\<close>

theorem set_key_type_compares_identity:
  "is_not v rsa_literal \<Longrightarrow> set_key_type v t = Inl (ValidationError key_type_message)"
  by (simp add: set_key_type_def validate_custom_def)

theorem set_key_type_compares_identity_witness:
  "obj_value \<lparr>obj_id = 1, obj_value = PStr ''rsa''\<rparr> = obj_value rsa_literal
   \<and> is_not \<lparr>obj_id = 1, obj_value = PStr ''rsa''\<rparr> rsa_literal
   \<and> set_key_type \<lparr>obj_id = 1, obj_value = PStr ''rsa''\<rparr> unsaved_template
       = Inl (ValidationError key_type_message)"
  using set_key_type_compares_identity
    [of "\<lparr>obj_id = 1, obj_value = PStr ''rsa''\<rparr>" unsaved_template]
  by (simp add: is_not_def rsa_literal_def)

text \<open>
  The part of the claim that holds. An identity belongs to one object, so an argument
  with the identity of the constant is the constant: a call that returns normally was
  given the constant itself and has stored \<^verbatim>\<open>rsa\<close> under \<^verbatim>\<open>key-type\<close>; hence an
  argument with any other contents is rejected.
\<close>

lemma set_key_type_returns_rsa:
  assumes "set_key_type v t = Inr t'"
    and "obj_id v = obj_id rsa_literal \<Longrightarrow> v = rsa_literal"
  shows "v = rsa_literal \<and> key_type t' = PStr ''rsa''"
proof -
  have same: "obj_id v = obj_id rsa_literal"
    using assms(1) by (auto simp: set_key_type_def validate_custom_def is_not_def split: if_splits)
  then have v: "v = rsa_literal" by (rule assms(2))
  have "key_type t' = obj_value v"
    using assms(1)
    by (auto simp: set_key_type_def validate_custom_def is_not_def key_type_def dict_has_def
          dict_keys_def dict_set_def AList.update_conv' AList.dom_update split: if_splits)
  then show ?thesis using v by (simp add: rsa_literal_def)
qed

lemma set_key_type_rejects_other_strings:
  assumes "obj_value v \<noteq> PStr ''rsa''"
    and "obj_id v = obj_id rsa_literal \<Longrightarrow> v = rsa_literal"
  shows "set_key_type v t = Inl (ValidationError key_type_message)"
proof -
  have "obj_id v \<noteq> obj_id rsa_literal"
  proof
    assume "obj_id v = obj_id rsa_literal"
    then have "v = rsa_literal" by (rule assms(2))
    then show False using assms(1) by (simp add: rsa_literal_def)
  qed
  then have "is_not v rsa_literal" by (simp add: is_not_def)
  then show ?thesis by (simp add: set_key_type_def validate_custom_def)
qed

section \<open>Operations on the template's resource\<close>

text \<open>
  C2. The claim is that \<^verbatim>\<open>get_certificate\<close> posts a \<^verbatim>\<open>get-certificate\<close> payload and
  branches on the status. On the code every call raises NameError for the name
  \<^verbatim>\<open>ip\<close> before any request is sent: the Template and the log of requests are as
  before.
\<close>

theorem get_certificate_raises_NameError:
  "get_certificate rt srv log conn t common_name dns_name ip_addr = (Inl (NameError ''ip''), t, log)"
  by (simp add: get_certificate_def lookup_name_def Let_def)

text \<open>
  C8, as stated, fails: with status 200 \<^verbatim>\<open>generate_template_certificate_authority\<close>
  raises the unexpected-response error.
\<close>

theorem operation_status_counterexample:
  "generate_template_certificate_authority sample_runtime
     (respond \<lparr>status_code = 200, resp_text = ''done'', headers = []\<rparr>) []
     sample_connection sample_template 365
   = (Inl (UnexpectedManagementAPIResponse ''done''), sample_template,
      [operation_post sample_runtime sample_connection sample_template
         [(''operation'', PStr ''generate-template-certificate-authority''),
          (''valid-for'', PInt 365)]])"
  by (simp add: generate_template_certificate_authority_def respond_def Let_def)

text \<open>
  C8, amended. Each of the operations sends one POST to the template's URI with its
  \<^verbatim>\<open>operation\<close> payload and leaves the Template as it is. The two generate operations
  return the Template on status 201 and raise the unexpected-response error with the
  response body on every other status; \<^verbatim>\<open>get_certificates_for_template\<close> returns the
  parsed body on 200, None on 404, and raises that error on every other status.
\<close>

theorem operation_status_protocol:
  "(\<exists>rq. rq = operation_post rt conn t
            [(''operation'', PStr ''generate-template-certificate-authority''),
             (''valid-for'', PInt valid_for)]
      \<and> rq = \<lparr>rq_method = POST,
                rq_uri = ''http://'' @ host conn @ '':'' @ str_of rt (management_port conn)
                           @ ''/manage/v2/certificate-templates/'' @ str_of rt (template_id t),
                rq_json = Some [(''operation'', PStr ''generate-template-certificate-authority''),
                                (''valid-for'', PInt valid_for)],
                rq_auth = auth conn, rq_headers = [(''accept'', ''application/json'')]\<rparr>
      \<and> snd (generate_template_certificate_authority rt srv log conn t valid_for)
          = (t, log @ [rq])
      \<and> (status_code (srv log rq) = 201 \<longrightarrow>
            fst (generate_template_certificate_authority rt srv log conn t valid_for) = Inr t)
      \<and> (status_code (srv log rq) \<noteq> 201 \<longrightarrow>
            fst (generate_template_certificate_authority rt srv log conn t valid_for)
              = Inl (UnexpectedManagementAPIResponse (resp_text (srv log rq)))))
   \<and> (\<exists>rq. rq = operation_post rt conn t
            [(''operation'', PStr ''generate-temporary-certificate''),
             (''valid-for'', PInt valid_for),
             (''common-name'', common_name),
             (''dns-name'', dns_name),
             (''ip-addr'', ip_addr),
             (''if-necessary'', PStr (if if_necessary then ''true'' else ''false''))]
      \<and> rq = \<lparr>rq_method = POST,
                rq_uri = ''http://'' @ host conn @ '':'' @ str_of rt (management_port conn)
                           @ ''/manage/v2/certificate-templates/'' @ str_of rt (template_id t),
                rq_json = Some [(''operation'', PStr ''generate-temporary-certificate''),
                                (''valid-for'', PInt valid_for),
                                (''common-name'', common_name),
                                (''dns-name'', dns_name),
                                (''ip-addr'', ip_addr),
                                (''if-necessary'',
                                 PStr (if if_necessary then ''true'' else ''false''))],
                rq_auth = auth conn, rq_headers = [(''accept'', ''application/json'')]\<rparr>
      \<and> snd (generate_temporary_certificate rt srv log conn t valid_for common_name dns_name
               ip_addr if_necessary)
          = (t, log @ [rq])
      \<and> (status_code (srv log rq) = 201 \<longrightarrow>
            fst (generate_temporary_certificate rt srv log conn t valid_for common_name
                   dns_name ip_addr if_necessary) = Inr t)
      \<and> (status_code (srv log rq) \<noteq> 201 \<longrightarrow>
            fst (generate_temporary_certificate rt srv log conn t valid_for common_name
                   dns_name ip_addr if_necessary)
              = Inl (UnexpectedManagementAPIResponse (resp_text (srv log rq)))))
   \<and> (\<exists>rq. rq = operation_post rt conn t
            [(''operation'', PStr ''get-certificates-for-template'')]
      \<and> rq = \<lparr>rq_method = POST,
                rq_uri = ''http://'' @ host conn @ '':'' @ str_of rt (management_port conn)
                           @ ''/manage/v2/certificate-templates/'' @ str_of rt (template_id t),
                rq_json = Some [(''operation'', PStr ''get-certificates-for-template'')],
                rq_auth = auth conn, rq_headers = [(''accept'', ''application/json'')]\<rparr>
      \<and> snd (get_certificates_for_template rt srv log conn t) = (t, log @ [rq])
      \<and> (status_code (srv log rq) = 200 \<longrightarrow>
            fst (get_certificates_for_template rt srv log conn t)
              = (case json_loads rt (resp_text (srv log rq)) of
                   None \<Rightarrow> Inl JSONDecodeError | Some v \<Rightarrow> Inr v))
      \<and> (status_code (srv log rq) = 404 \<longrightarrow>
            fst (get_certificates_for_template rt srv log conn t) = Inr PNone)
      \<and> (status_code (srv log rq) \<notin> {200, 404} \<longrightarrow>
            fst (get_certificates_for_template rt srv log conn t)
              = Inl (UnexpectedManagementAPIResponse (resp_text (srv log rq)))))"
proof -
  have lit: "\<And>payload. operation_post rt conn t payload
      = \<lparr>rq_method = POST,
         rq_uri = ''http://'' @ host conn @ '':'' @ str_of rt (management_port conn)
                    @ ''/manage/v2/certificate-templates/'' @ str_of rt (template_id t),
         rq_json = Some payload,
         rq_auth = auth conn, rq_headers = [(''accept'', ''application/json'')]\<rparr>"
    by (simp add: operation_post_def template_uri_def templates_uri_def accept_json_def)
  have a: "(\<exists>rq. rq = operation_post rt conn t
            [(''operation'', PStr ''generate-template-certificate-authority''),
             (''valid-for'', PInt valid_for)]
      \<and> rq = \<lparr>rq_method = POST,
                rq_uri = ''http://'' @ host conn @ '':'' @ str_of rt (management_port conn)
                           @ ''/manage/v2/certificate-templates/'' @ str_of rt (template_id t),
                rq_json = Some [(''operation'', PStr ''generate-template-certificate-authority''),
                                (''valid-for'', PInt valid_for)],
                rq_auth = auth conn, rq_headers = [(''accept'', ''application/json'')]\<rparr>
      \<and> snd (generate_template_certificate_authority rt srv log conn t valid_for)
          = (t, log @ [rq])
      \<and> (status_code (srv log rq) = 201 \<longrightarrow>
            fst (generate_template_certificate_authority rt srv log conn t valid_for) = Inr t)
      \<and> (status_code (srv log rq) \<noteq> 201 \<longrightarrow>
            fst (generate_template_certificate_authority rt srv log conn t valid_for)
              = Inl (UnexpectedManagementAPIResponse (resp_text (srv log rq)))))"
    by (intro exI[of _ "operation_post rt conn t
            [(''operation'', PStr ''generate-template-certificate-authority''),
             (''valid-for'', PInt valid_for)]"] conjI refl lit)
       (simp_all add: generate_template_certificate_authority_def Let_def split: option.splits)
  have b: "(\<exists>rq. rq = operation_post rt conn t
            [(''operation'', PStr ''generate-temporary-certificate''),
             (''valid-for'', PInt valid_for),
             (''common-name'', common_name),
             (''dns-name'', dns_name),
             (''ip-addr'', ip_addr),
             (''if-necessary'', PStr (if if_necessary then ''true'' else ''false''))]
      \<and> rq = \<lparr>rq_method = POST,
                rq_uri = ''http://'' @ host conn @ '':'' @ str_of rt (management_port conn)
                           @ ''/manage/v2/certificate-templates/'' @ str_of rt (template_id t),
                rq_json = Some [(''operation'', PStr ''generate-temporary-certificate''),
                                (''valid-for'', PInt valid_for),
                                (''common-name'', common_name),
                                (''dns-name'', dns_name),
                                (''ip-addr'', ip_addr),
                                (''if-necessary'',
                                 PStr (if if_necessary then ''true'' else ''false''))],
                rq_auth = auth conn, rq_headers = [(''accept'', ''application/json'')]\<rparr>
      \<and> snd (generate_temporary_certificate rt srv log conn t valid_for common_name dns_name
               ip_addr if_necessary)
          = (t, log @ [rq])
      \<and> (status_code (srv log rq) = 201 \<longrightarrow>
            fst (generate_temporary_certificate rt srv log conn t valid_for common_name
                   dns_name ip_addr if_necessary) = Inr t)
      \<and> (status_code (srv log rq) \<noteq> 201 \<longrightarrow>
            fst (generate_temporary_certificate rt srv log conn t valid_for common_name
                   dns_name ip_addr if_necessary)
              = Inl (UnexpectedManagementAPIResponse (resp_text (srv log rq)))))"
    by (intro exI[of _ "operation_post rt conn t
            [(''operation'', PStr ''generate-temporary-certificate''),
             (''valid-for'', PInt valid_for),
             (''common-name'', common_name),
             (''dns-name'', dns_name),
             (''ip-addr'', ip_addr),
             (''if-necessary'', PStr (if if_necessary then ''true'' else ''false''))]"] conjI refl lit)
       (simp_all add: generate_temporary_certificate_def Let_def split: option.splits)
  have c: "(\<exists>rq. rq = operation_post rt conn t
            [(''operation'', PStr ''get-certificates-for-template'')]
      \<and> rq = \<lparr>rq_method = POST,
                rq_uri = ''http://'' @ host conn @ '':'' @ str_of rt (management_port conn)
                           @ ''/manage/v2/certificate-templates/'' @ str_of rt (template_id t),
                rq_json = Some [(''operation'', PStr ''get-certificates-for-template'')],
                rq_auth = auth conn, rq_headers = [(''accept'', ''application/json'')]\<rparr>
      \<and> snd (get_certificates_for_template rt srv log conn t) = (t, log @ [rq])
      \<and> (status_code (srv log rq) = 200 \<longrightarrow>
            fst (get_certificates_for_template rt srv log conn t)
              = (case json_loads rt (resp_text (srv log rq)) of
                   None \<Rightarrow> Inl JSONDecodeError | Some v \<Rightarrow> Inr v))
      \<and> (status_code (srv log rq) = 404 \<longrightarrow>
            fst (get_certificates_for_template rt srv log conn t) = Inr PNone)
      \<and> (status_code (srv log rq) \<notin> {200, 404} \<longrightarrow>
            fst (get_certificates_for_template rt srv log conn t)
              = Inl (UnexpectedManagementAPIResponse (resp_text (srv log rq)))))"
    by (intro exI[of _ "operation_post rt conn t
            [(''operation'', PStr ''get-certificates-for-template'')]"] conjI refl lit)
       (simp_all add: get_certificates_for_template_def Let_def split: option.splits)
  show ?thesis
    by (rule conjI[OF a conjI[OF b c]])
qed


theorem operation_status_protocol_witness:
  "fst (generate_template_certificate_authority sample_runtime
          (respond \<lparr>status_code = 201, resp_text = ''created'', headers = []\<rparr>) []
          sample_connection sample_template 365) = Inr sample_template
   \<and> fst (generate_temporary_certificate sample_runtime
          (respond \<lparr>status_code = 204, resp_text = ''nothing'', headers = []\<rparr>) []
          sample_connection sample_template 365 (PStr ''Example Corp'') (PStr ''example.com'')
          (PStr ''10.0.0.1'') True) = Inl (UnexpectedManagementAPIResponse ''nothing'')
   \<and> fst (get_certificates_for_template sample_runtime
          (respond \<lparr>status_code = 404, resp_text = ''missing'', headers = []\<rparr>) []
          sample_connection sample_template) = Inr PNone"
  using operation_status_protocol
      [of sample_runtime sample_connection sample_template 365
        "respond \<lparr>status_code = 201, resp_text = ''created'', headers = []\<rparr>" "[]"]
    operation_status_protocol
      [of sample_runtime sample_connection sample_template 365
        "respond \<lparr>status_code = 204, resp_text = ''nothing'', headers = []\<rparr>" "[]"
        "PStr ''Example Corp''" "PStr ''example.com''" "PStr ''10.0.0.1''" True]
    operation_status_protocol
      [of sample_runtime sample_connection sample_template 365
        "respond \<lparr>status_code = 404, resp_text = ''missing'', headers = []\<rparr>" "[]"]
  by (simp add: respond_def)

section \<open>update\<close>

lemma dict_has_flatten: "dict_has k (map flatten_entry cfg) = dict_has k cfg"
  unfolding dict_has_def dict_keys_def flatten_entry_keys ..

lemma dict_has_delete: "dict_has k (AList.delete k' d) = (k \<noteq> k' \<and> dict_has k d)"
  by (auto simp: dict_has_def dict_keys_def AList.delete_keys)

text \<open>
  C10. For a Template (with a Request under \<^verbatim>\<open>req\<close> if it has that key) whose
  configuration lacks \<^verbatim>\<open>template-id\<close> or \<^verbatim>\<open>template-version\<close>, \<^verbatim>\<open>update\<close> raises
  KeyError for the first of the two deletions that misses its key, the log of requests
  is unchanged (no request is sent) and so is the Template. The error is KeyError, not
  the validation error.
\<close>

theorem update_unsaved_raises_KeyError:
  assumes "template_ok t"
    and "\<not> dict_has ''template-id'' (config t) \<or> \<not> dict_has ''template-version'' (config t)"
  shows "update rt srv log conn t
      = (Inl (KeyError (if dict_has ''template-version'' (config t)
                        then ''template-id'' else ''template-version'')), t, log)"
proof -
  have m: "marshal t = Inr (map flatten_entry (config t))" by (rule marshal_ok[OF assms(1)])
  show ?thesis
  proof (cases "dict_has ''template-version'' (config t)")
    case True
    then have "\<not> dict_has ''template-id'' (config t)" using assms(2) by simp
    then show ?thesis
      using True m by (simp add: update_def dict_del_def dict_has_flatten dict_has_delete)
  next
    case False
    then show ?thesis
      using m by (simp add: update_def dict_del_def dict_has_flatten)
  qed
qed

theorem update_unsaved_raises_KeyError_witness:
  "template_ok unsaved_template
   \<and> \<not> dict_has ''template-id'' (config unsaved_template)
   \<and> \<not> dict_has ''template-version'' (config unsaved_template)
   \<and> update sample_runtime (respond \<lparr>status_code = 200, resp_text = ''done'', headers = []\<rparr>)
         [] sample_connection unsaved_template
       = (Inl (KeyError ''template-version''), unsaved_template, [])"
  using update_unsaved_raises_KeyError
    [of unsaved_template sample_runtime
        "respond \<lparr>status_code = 200, resp_text = ''done'', headers = []\<rparr>" "[]"
        sample_connection]
  by (simp add: template_ok_def request_ok_def unsaved_template_def dict_has_def dict_keys_def)

text \<open>
  C3. For a Template with \<^verbatim>\<open>template-id\<close> and \<^verbatim>\<open>template-version\<close> present,
  \<^verbatim>\<open>update\<close> sends exactly one request: a PUT to the \<^verbatim>\<open>properties\<close> URI of the
  template whose JSON body is the marshalled dictionary without these two keys, so it
  has every other marshalled field. The Template is unchanged; the call returns the
  Template on status 200 or 204 and raises the unexpected-response error with the
  response body on any other status.
\<close>

theorem update_sends_marshalled_fields:
  assumes "template_ok t"
    and "dict_has ''template-id'' (config t)"
    and "dict_has ''template-version'' (config t)"
  shows "\<exists>m payload rq.
      marshal t = Inr m
      \<and> payload = AList.delete ''template-id'' (AList.delete ''template-version'' m)
      \<and> (\<forall>k. map_of payload k
             = (if k = ''template-id'' \<or> k = ''template-version'' then None else map_of m k))
      \<and> rq = update_put rt conn t payload
      \<and> rq = \<lparr>rq_method = PUT,
              rq_uri = ''http://'' @ host conn @ '':'' @ str_of rt (management_port conn)
                       @ ''/manage/v2/certificate-templates/'' @ str_of rt (template_id t)
                       @ ''/properties'',
              rq_json = Some payload, rq_auth = auth conn, rq_headers = []\<rparr>
      \<and> rq_method rq = PUT
      \<and> rq_json rq = Some payload
      \<and> update rt srv log conn t
          = (if status_code (srv log rq) = 200 \<or> status_code (srv log rq) = 204 then Inr t
             else Inl (UnexpectedManagementAPIResponse (resp_text (srv log rq))),
             t, log @ [rq])"
proof -
  let ?m = "map flatten_entry (config t)"
  let ?p = "AList.delete ''template-id'' (AList.delete ''template-version'' ?m)"
  let ?rq = "update_put rt conn t ?p"
  have m: "marshal t = Inr ?m" by (rule marshal_ok[OF assms(1)])
  have fields: "\<forall>k. map_of ?p k
      = (if k = ''template-id'' \<or> k = ''template-version'' then None else map_of ?m k)"
    by (simp add: AList.delete_conv)
  have lit: "?rq = \<lparr>rq_method = PUT,
              rq_uri = ''http://'' @ host conn @ '':'' @ str_of rt (management_port conn)
                       @ ''/manage/v2/certificate-templates/'' @ str_of rt (template_id t)
                       @ ''/properties'',
              rq_json = Some ?p, rq_auth = auth conn, rq_headers = []\<rparr>"
    by (simp add: update_put_def template_uri_def templates_uri_def)
  have meth: "rq_method ?rq = PUT" by (simp add: update_put_def)
  have body: "rq_json ?rq = Some ?p" by (simp add: update_put_def)
  have run: "update rt srv log conn t
      = (if status_code (srv log ?rq) = 200 \<or> status_code (srv log ?rq) = 204 then Inr t
         else Inl (UnexpectedManagementAPIResponse (resp_text (srv log ?rq))),
         t, log @ [?rq])"
    using m assms(2,3)
    by (simp add: update_def dict_del_def dict_has_flatten dict_has_delete Let_def)
  show ?thesis
    by (intro exI[of _ ?m] exI[of _ ?p] exI[of _ ?rq] conjI m refl fields lit meth body run)
qed

theorem update_sends_marshalled_fields_witness:
  "template_ok sample_template
   \<and> dict_has ''template-id'' (config sample_template)
   \<and> dict_has ''template-version'' (config sample_template)
   \<and> marshal sample_template
       = Inr [(''template-name'', PStr ''t1''),
              (''template-description'', PStr ''first''),
              (''req'', PDict [(''version'', PStr ''0'')]),
              (''key-type'', PStr ''rsa''),
              (''template-id'', PStr ''123''),
              (''template-version'', PInt 2)]
   \<and> update sample_runtime
         (respond \<lparr>status_code = 204, resp_text = [], headers = []\<rparr>) []
         sample_connection sample_template
       = (Inr sample_template, sample_template,
          [\<lparr>rq_method = PUT,
            rq_uri = ''http://localhost:8002/manage/v2/certificate-templates/123/properties'',
            rq_json = Some [(''template-name'', PStr ''t1''),
                            (''template-description'', PStr ''first''),
                            (''req'', PDict [(''version'', PStr ''0'')]),
                            (''key-type'', PStr ''rsa'')],
            rq_auth = (''admin'', ''admin''), rq_headers = []\<rparr>])
   \<and> update sample_runtime
         (respond \<lparr>status_code = 201, resp_text = ''created'', headers = []\<rparr>) []
         sample_connection sample_template
       = (Inl (UnexpectedManagementAPIResponse ''created''), sample_template,
          [\<lparr>rq_method = PUT,
            rq_uri = ''http://localhost:8002/manage/v2/certificate-templates/123/properties'',
            rq_json = Some [(''template-name'', PStr ''t1''),
                            (''template-description'', PStr ''first''),
                            (''req'', PDict [(''version'', PStr ''0'')]),
                            (''key-type'', PStr ''rsa'')],
            rq_auth = (''admin'', ''admin''), rq_headers = []\<rparr>])"
  using update_sends_marshalled_fields
    [of sample_template sample_runtime sample_connection
        "respond \<lparr>status_code = 204, resp_text = [], headers = []\<rparr>" "[]"]
    update_sends_marshalled_fields
    [of sample_template sample_runtime sample_connection
        "respond \<lparr>status_code = 201, resp_text = ''created'', headers = []\<rparr>" "[]"]
  by (simp add: template_ok_def request_ok_def sample_template_def sample_config_def
        dict_has_def dict_keys_def respond_def marshal_def dict_get_def dict_set_def
        update_put_def template_uri_def templates_uri_def template_id_def
        sample_runtime_def sample_connection_def)

section \<open>delete\<close>

lemma dict_has_map_of: "dict_has k d = (map_of d k \<noteq> None)"
  by (simp add: dict_has_def dict_keys_def map_of_eq_None_iff)

lemma lookup_map_of:
  "(if dict_has k d then (case map_of d k of Some v \<Rightarrow> v | None \<Rightarrow> PNone) else PNone)
     = (case map_of d k of Some v \<Rightarrow> v | None \<Rightarrow> PNone)"
  by (simp add: dict_has_map_of split: option.splits)

lemma unmarshal_other_keys:
  "k \<noteq> ''req'' \<Longrightarrow> map_of (config (unmarshal d)) k = map_of d k"
  by (simp add: unmarshal_def dict_get_def dict_set_def Let_def AList.update_conv'
        split: option.splits)

lemma unmarshal_etag: "etag (unmarshal d) = PNone"
  by (simp add: unmarshal_def dict_get_def Let_def split: option.splits)

text \<open>
  C4, as stated, fails: for a Template without a \<^verbatim>\<open>template-id\<close> entry (one that was
  never created or fetched) and a response with status 404, \<^verbatim>\<open>delete\<close> raises
  KeyError from the deletion of the entry.
\<close>

theorem delete_unsaved_counterexample:
  "delete sample_runtime (respond \<lparr>status_code = 404, resp_text = ''gone'', headers = []\<rparr>) []
     sample_connection unsaved_template
   = (Inl (KeyError ''template-id''), unsaved_template,
      [delete_request sample_runtime sample_connection unsaved_template])"
  by (simp add: delete_def Let_def dict_del_def dict_has_def dict_keys_def respond_def
        unsaved_template_def)

text \<open>
  C4, amended. For a Template whose configuration has a \<^verbatim>\<open>template-id\<close> entry,
  \<^verbatim>\<open>delete\<close> sends one DELETE to the template's URI; on status 200, 204 or 404 it
  returns normally, having removed that entry and nothing else, so that
  \<^verbatim>\<open>template_id()\<close> is None afterwards; on any other status it raises the
  unexpected-response error with the response body and leaves the Template as it was.
\<close>

theorem delete_clears_template_id:
  assumes "dict_has ''template-id'' (config t)"
  shows "\<exists>rq. rq = delete_request rt conn t
      \<and> rq = \<lparr>rq_method = DELETE,
                rq_uri = ''http://'' @ host conn @ '':'' @ str_of rt (management_port conn)
                           @ ''/manage/v2/certificate-templates/'' @ str_of rt (template_id t),
                rq_json = None, rq_auth = auth conn, rq_headers = []\<rparr>
      \<and> (status_code (srv log rq) \<in> {200, 204, 404} \<longrightarrow>
           (\<exists>t'. delete rt srv log conn t = (Inr t', t', log @ [rq])
              \<and> config t' = AList.delete ''template-id'' (config t)
              \<and> etag t' = etag t
              \<and> template_id t' = PNone))
      \<and> (status_code (srv log rq) \<notin> {200, 204, 404} \<longrightarrow>
           delete rt srv log conn t
             = (Inl (UnexpectedManagementAPIResponse (resp_text (srv log rq))), t, log @ [rq]))"
proof -
  have lit: "delete_request rt conn t
      = \<lparr>rq_method = DELETE,
         rq_uri = ''http://'' @ host conn @ '':'' @ str_of rt (management_port conn)
                    @ ''/manage/v2/certificate-templates/'' @ str_of rt (template_id t),
         rq_json = None, rq_auth = auth conn, rq_headers = []\<rparr>"
    by (simp add: delete_request_def template_uri_def templates_uri_def)
  have gone: "template_id (t\<lparr>config := AList.delete ''template-id'' (config t)\<rparr>) = PNone"
    by (simp add: template_id_def dict_has_delete)
  have fine: "status_code (srv log (delete_request rt conn t)) \<in> {200, 204, 404} \<longrightarrow>
           (\<exists>t'. delete rt srv log conn t = (Inr t', t', log @ [delete_request rt conn t])
              \<and> config t' = AList.delete ''template-id'' (config t)
              \<and> etag t' = etag t
              \<and> template_id t' = PNone)"
    using assms gone by (simp add: delete_def Let_def dict_del_def)
  have other: "status_code (srv log (delete_request rt conn t)) \<notin> {200, 204, 404} \<longrightarrow>
           delete rt srv log conn t
             = (Inl (UnexpectedManagementAPIResponse
                       (resp_text (srv log (delete_request rt conn t)))),
                t, log @ [delete_request rt conn t])"
    by (simp add: delete_def Let_def)
  show ?thesis
    by (intro exI[of _ "delete_request rt conn t"] conjI refl lit fine other)
qed

text \<open>
  Without a \<^verbatim>\<open>template-id\<close> entry the request is sent all the same, and on status
  200, 204 or 404 the removal of the entry raises KeyError.
\<close>

lemma delete_without_template_id:
  assumes "\<not> dict_has ''template-id'' (config t)"
    and "status_code (srv log (delete_request rt conn t)) \<in> {200, 204, 404}"
  shows "delete rt srv log conn t
      = (Inl (KeyError ''template-id''), t, log @ [delete_request rt conn t])"
  using assms by (auto simp: delete_def Let_def dict_del_def)

theorem delete_clears_template_id_witness:
  "dict_has ''template-id'' (config sample_template)
   \<and> (\<exists>t'. delete sample_runtime
           (respond \<lparr>status_code = 404, resp_text = ''gone'', headers = []\<rparr>) []
           sample_connection sample_template
         = (Inr t', t',
            [\<lparr>rq_method = DELETE,
             rq_uri = ''http://localhost:8002/manage/v2/certificate-templates/123'',
             rq_json = None, rq_auth = (''admin'', ''admin''), rq_headers = []\<rparr>])
       \<and> config t' = AList.delete ''template-id'' (config sample_template)
       \<and> etag t' = etag sample_template
       \<and> template_id t' = PNone)
   \<and> delete sample_runtime
         (respond \<lparr>status_code = 201, resp_text = ''created'', headers = []\<rparr>) []
         sample_connection sample_template
       = (Inl (UnexpectedManagementAPIResponse ''created''), sample_template,
          [\<lparr>rq_method = DELETE,
             rq_uri = ''http://localhost:8002/manage/v2/certificate-templates/123'',
             rq_json = None, rq_auth = (''admin'', ''admin''), rq_headers = []\<rparr>])"
  using delete_clears_template_id
      [of sample_template sample_runtime sample_connection
          "respond \<lparr>status_code = 404, resp_text = ''gone'', headers = []\<rparr>" "[]"]
    delete_clears_template_id
      [of sample_template sample_runtime sample_connection
          "respond \<lparr>status_code = 201, resp_text = ''created'', headers = []\<rparr>" "[]"]
  by (simp add: respond_def sample_template_def sample_config_def dict_has_def dict_keys_def
        delete_request_def template_uri_def templates_uri_def template_id_def
        sample_runtime_def sample_connection_def)

section \<open>create\<close>

text \<open>
  C1, as stated, fails: the POST is answered with 201 and a location, the GET of the
  properties with 500; \<^verbatim>\<open>create\<close> raises the unexpected-response error, the
  configuration is not replaced and the template ID stays None.
\<close>

theorem create_refetch_counterexample:
  "create sample_runtime refetch_fails_server [] sample_connection unsaved_template
   = Some (Inl (UnexpectedManagementAPIResponse ''internal error''), unsaved_template,
      [create_post sample_runtime sample_connection
         [(''template-name'', PStr ''t1''),
          (''template-description'', PStr ''first''),
          (''req'', PDict [(''version'', PStr ''0'')]),
          (''key-type'', PStr ''rsa'')],
       create_get sample_runtime sample_connection ''/manage/v2/certificate-templates/123''])
   \<and> template_id unsaved_template = PNone"
  by (simp add: create_def marshal_def dict_keys_def dict_get_def dict_set_def Let_def
        refetch_fails_server_def unsaved_template_def create_post_def create_get_def
        template_id_def dict_has_def)

text \<open>
  C1, amended. \<^verbatim>\<open>create\<close> posts the marshalled Template. On a status other than
  200, 201 and 204 it raises the unexpected-response error with the body of that
  response, sends nothing more and leaves the Template unchanged. On one of these
  statuses, with a \<^verbatim>\<open>location\<close> header, it sends a GET to the location followed by
  \<^verbatim>\<open>/properties\<close>. When that GET is answered with status 200 and a JSON object, the
  configuration is replaced by the unmarshalled object, so the template ID and version
  are the ones the object carries; when it is answered with any other status,
  \<^verbatim>\<open>create\<close> raises the unexpected-response error with the body of the second
  response and leaves the Template unchanged.
\<close>

theorem create_refetches_properties:
  assumes "template_ok t"
  shows "\<exists>struct post.
      marshal t = Inr struct \<and> post = create_post rt conn struct
      \<and> post = \<lparr>rq_method = POST,
                  rq_uri = ''http://'' @ host conn @ '':'' @ str_of rt (management_port conn)
                             @ ''/manage/v2/certificate-templates'',
                  rq_json = Some struct, rq_auth = auth conn, rq_headers = []\<rparr>
      \<and> (status_code (srv log post) \<notin> {200, 201, 204} \<longrightarrow>
           create rt srv log conn t
             = Some (Inl (UnexpectedManagementAPIResponse (resp_text (srv log post))),
                     t, log @ [post]))
      \<and> (\<forall>loc. status_code (srv log post) \<in> {200, 201, 204}
              \<and> map_of (headers (srv log post)) ''location'' = Some loc \<longrightarrow>
           (\<exists>get. get = create_get rt conn loc
              \<and> get = \<lparr>rq_method = GET,
                        rq_uri = ''http://'' @ host conn @ '':''
                                   @ str_of rt (management_port conn) @ loc @ ''/properties'',
                        rq_json = None, rq_auth = auth conn,
                        rq_headers = [(''accept'', ''application/json'')]\<rparr>
              \<and> rq_uri get = ''http://'' @ host conn @ '':'' @ str_of rt (management_port conn)
                                @ loc @ ''/properties''
              \<and> (\<forall>d. status_code (srv (log @ [post]) get) = 200
                     \<and> json_loads rt (resp_text (srv (log @ [post]) get)) = Some (PDict d) \<longrightarrow>
                   (\<exists>t'. create rt srv log conn t = Some (Inr t', t', log @ [post, get])
                      \<and> t' = t\<lparr>config := config (unmarshal d)\<rparr>
                      \<and> template_id t'
                          = (case map_of d ''template-id'' of Some v \<Rightarrow> v | None \<Rightarrow> PNone)
                      \<and> template_version t'
                          = (case map_of d ''template-version'' of Some v \<Rightarrow> v | None \<Rightarrow> PNone)))
              \<and> (status_code (srv (log @ [post]) get) \<noteq> 200 \<longrightarrow>
                   create rt srv log conn t
                     = Some (Inl (UnexpectedManagementAPIResponse
                                    (resp_text (srv (log @ [post]) get))),
                             t, log @ [post, get]))))"
proof -
  let ?struct = "map flatten_entry (config t)"
  let ?post = "create_post rt conn ?struct"
  have m: "marshal t = Inr ?struct" by (rule marshal_ok[OF assms])
  have lit: "?post = \<lparr>rq_method = POST,
                  rq_uri = ''http://'' @ host conn @ '':'' @ str_of rt (management_port conn)
                             @ ''/manage/v2/certificate-templates'',
                  rq_json = Some ?struct, rq_auth = auth conn, rq_headers = []\<rparr>"
    by (simp add: create_post_def templates_uri_def)
  have fail: "status_code (srv log ?post) \<notin> {200, 201, 204} \<longrightarrow>
           create rt srv log conn t
             = Some (Inl (UnexpectedManagementAPIResponse (resp_text (srv log ?post))),
                     t, log @ [?post])"
    using m by (simp add: create_def Let_def)
  have ok: "\<forall>loc. status_code (srv log ?post) \<in> {200, 201, 204}
              \<and> map_of (headers (srv log ?post)) ''location'' = Some loc \<longrightarrow>
           (\<exists>get. get = create_get rt conn loc
              \<and> get = \<lparr>rq_method = GET,
                        rq_uri = ''http://'' @ host conn @ '':''
                                   @ str_of rt (management_port conn) @ loc @ ''/properties'',
                        rq_json = None, rq_auth = auth conn,
                        rq_headers = [(''accept'', ''application/json'')]\<rparr>
              \<and> rq_uri get = ''http://'' @ host conn @ '':'' @ str_of rt (management_port conn)
                                @ loc @ ''/properties''
              \<and> (\<forall>d. status_code (srv (log @ [?post]) get) = 200
                     \<and> json_loads rt (resp_text (srv (log @ [?post]) get)) = Some (PDict d) \<longrightarrow>
                   (\<exists>t'. create rt srv log conn t = Some (Inr t', t', log @ [?post, get])
                      \<and> t' = t\<lparr>config := config (unmarshal d)\<rparr>
                      \<and> template_id t'
                          = (case map_of d ''template-id'' of Some v \<Rightarrow> v | None \<Rightarrow> PNone)
                      \<and> template_version t'
                          = (case map_of d ''template-version'' of Some v \<Rightarrow> v | None \<Rightarrow> PNone)))
              \<and> (status_code (srv (log @ [?post]) get) \<noteq> 200 \<longrightarrow>
                   create rt srv log conn t
                     = Some (Inl (UnexpectedManagementAPIResponse
                                    (resp_text (srv (log @ [?post]) get))),
                             t, log @ [?post, get])))"
  proof (intro allI impI)
    fix loc
    assume a: "status_code (srv log ?post) \<in> {200, 201, 204}
              \<and> map_of (headers (srv log ?post)) ''location'' = Some loc"
    let ?get = "create_get rt conn loc"
    have glit: "?get = \<lparr>rq_method = GET,
                        rq_uri = ''http://'' @ host conn @ '':''
                                   @ str_of rt (management_port conn) @ loc @ ''/properties'',
                        rq_json = None, rq_auth = auth conn,
                        rq_headers = [(''accept'', ''application/json'')]\<rparr>"
      by (simp add: create_get_def location_properties_uri_def accept_json_def)
    have uri: "rq_uri ?get = ''http://'' @ host conn @ '':'' @ str_of rt (management_port conn)
                                @ loc @ ''/properties''"
      by (simp add: create_get_def location_properties_uri_def)
    have good: "\<forall>d. status_code (srv (log @ [?post]) ?get) = 200
                     \<and> json_loads rt (resp_text (srv (log @ [?post]) ?get)) = Some (PDict d) \<longrightarrow>
                   (\<exists>t'. create rt srv log conn t = Some (Inr t', t', log @ [?post, ?get])
                      \<and> t' = t\<lparr>config := config (unmarshal d)\<rparr>
                      \<and> template_id t'
                          = (case map_of d ''template-id'' of Some v \<Rightarrow> v | None \<Rightarrow> PNone)
                      \<and> template_version t'
                          = (case map_of d ''template-version'' of Some v \<Rightarrow> v | None \<Rightarrow> PNone))"
      using m a
      by (auto simp: create_def Let_def template_id_def template_version_def lookup_map_of
            unmarshal_other_keys)
    have bad: "status_code (srv (log @ [?post]) ?get) \<noteq> 200 \<longrightarrow>
                   create rt srv log conn t
                     = Some (Inl (UnexpectedManagementAPIResponse
                                    (resp_text (srv (log @ [?post]) ?get))),
                             t, log @ [?post, ?get])"
      using m a by (auto simp: create_def Let_def)
    show "\<exists>get. get = create_get rt conn loc
              \<and> get = \<lparr>rq_method = GET,
                        rq_uri = ''http://'' @ host conn @ '':''
                                   @ str_of rt (management_port conn) @ loc @ ''/properties'',
                        rq_json = None, rq_auth = auth conn,
                        rq_headers = [(''accept'', ''application/json'')]\<rparr>
              \<and> rq_uri get = ''http://'' @ host conn @ '':'' @ str_of rt (management_port conn)
                                @ loc @ ''/properties''
              \<and> (\<forall>d. status_code (srv (log @ [?post]) get) = 200
                     \<and> json_loads rt (resp_text (srv (log @ [?post]) get)) = Some (PDict d) \<longrightarrow>
                   (\<exists>t'. create rt srv log conn t = Some (Inr t', t', log @ [?post, get])
                      \<and> t' = t\<lparr>config := config (unmarshal d)\<rparr>
                      \<and> template_id t'
                          = (case map_of d ''template-id'' of Some v \<Rightarrow> v | None \<Rightarrow> PNone)
                      \<and> template_version t'
                          = (case map_of d ''template-version'' of Some v \<Rightarrow> v | None \<Rightarrow> PNone)))
              \<and> (status_code (srv (log @ [?post]) get) \<noteq> 200 \<longrightarrow>
                   create rt srv log conn t
                     = Some (Inl (UnexpectedManagementAPIResponse
                                    (resp_text (srv (log @ [?post]) get))),
                             t, log @ [?post, get]))"
      by (intro exI[of _ ?get] conjI refl glit uri good bad)
  qed
  show ?thesis
    by (intro exI[of _ ?struct] exI[of _ ?post] conjI m refl lit fail ok)
qed

theorem create_refetches_properties_witness:
  "template_ok unsaved_template
   \<and> create sample_runtime created_server [] sample_connection unsaved_template
       = Some (Inr (unsaved_template\<lparr>config := config (unmarshal sample_properties)\<rparr>),
          unsaved_template\<lparr>config := config (unmarshal sample_properties)\<rparr>,
          [create_post sample_runtime sample_connection
             [(''template-name'', PStr ''t1''),
              (''template-description'', PStr ''first''),
              (''req'', PDict [(''version'', PStr ''0'')]),
              (''key-type'', PStr ''rsa'')],
           create_get sample_runtime sample_connection
             ''/manage/v2/certificate-templates/123''])
   \<and> template_id (unsaved_template\<lparr>config := config (unmarshal sample_properties)\<rparr>)
       = PStr ''123''
   \<and> template_version (unsaved_template\<lparr>config := config (unmarshal sample_properties)\<rparr>)
       = PInt 0
   \<and> create sample_runtime
         (respond \<lparr>status_code = 400, resp_text = ''bad request'', headers = []\<rparr>) []
         sample_connection unsaved_template
       = Some (Inl (UnexpectedManagementAPIResponse ''bad request''), unsaved_template,
          [create_post sample_runtime sample_connection
             [(''template-name'', PStr ''t1''),
              (''template-description'', PStr ''first''),
              (''req'', PDict [(''version'', PStr ''0'')]),
              (''key-type'', PStr ''rsa'')]])"
  using create_refetches_properties
      [of unsaved_template sample_runtime sample_connection created_server "[]"]
    create_refetches_properties
      [of unsaved_template sample_runtime sample_connection
          "respond \<lparr>status_code = 400, resp_text = ''bad request'', headers = []\<rparr>" "[]"]
  by (simp add: template_ok_def request_ok_def unsaved_template_def dict_keys_def dict_get_def
        dict_set_def dict_has_def marshal_def created_server_def respond_def create_post_def
        create_get_def sample_runtime_def sample_properties_def unmarshal_def
        Request_unmarshal_def template_id_def template_version_def)

section \<open>MMA.run\<close>

lemma normalize_loop_classify:
  "normalize_loop toks options params positional False
     = (case classify_tokens toks of
          (os, ps, qs) \<Rightarrow> (options @ os, params @ ps, positional @ qs))"
proof (induction toks arbitrary: options params positional rule: classify_tokens.induct)
  case 1
  then show ?case by simp
next
  case (2 tok rest)
  show ?case
  proof (cases "startswith tok ''-''")
    case dash: True
    show ?thesis
    proof (cases "tok = ''--debug''")
      case True
      then show ?thesis using dash "2.IH"(2) by (simp split: prod.splits)
    next
      case False
      show ?thesis
      proof (cases rest)
        case Nil
        then show ?thesis using dash False by simp
      next
        case (Cons arg rest')
        then show ?thesis using dash False "2.IH"(1) by (simp split: prod.splits)
      qed
    qed
  next
    case nodash: False
    show ?thesis
    proof (cases "CHR ''='' \<in> set tok")
      case True
      then show ?thesis using nodash "2.IH"(3) by (simp split: prod.splits)
    next
      case False
      then show ?thesis using nodash "2.IH"(4) by (simp split: prod.splits)
    qed
  qed
qed

lemma normalize_classify: "normalize argv = classify_tokens argv"
  by (simp add: normalize_def normalize_loop_classify split: prod.splits)


lemma resolve_parser_argv:
  "resolve_parser templ command artifact argv = ParseArgs parser argv' \<Longrightarrow> argv' = argv"
  by (auto simp: resolve_parser_def split: option.splits templ_val.splits)

lemma dispatch_plain:
  assumes "dispatch command_template (options, params, positional) = ParseArgs parser argv'"
    and "\<not> (1 < length positional \<and> positional ! 1 \<in> set server_types)"
  shows "argv' = options
           @ (if positional = [''stop''] then [''stop'', ''host''] else positional) @ params"
proof (cases positional)
  case Nil
  then show ?thesis using assms(1) by (simp add: dispatch_def)
next
  case (Cons command rest)
  show ?thesis
  proof (cases rest)
    case Nil
    then show ?thesis
      using assms(1) Cons
      by (auto simp: dispatch_def server_case_def stop_case_def Let_def
            split: if_splits option.splits dest: resolve_parser_argv)
  next
    case (Cons artifact rest')
    then have "artifact \<notin> set server_types" using assms(2) \<open>positional = command # rest\<close> by simp
    then show ?thesis
      using assms(1) Cons \<open>positional = command # rest\<close>
      by (auto simp: dispatch_def server_case_def stop_case_def Let_def
            split: if_splits option.splits dest: resolve_parser_argv)
  qed
qed

lemma dispatch_server:
  assumes "dispatch command_template (options, params, positional) = ParseArgs parser argv'"
    and "1 < length positional \<and> positional ! 1 \<in> set server_types"
  shows "2 < length positional \<and>
     argv' = (options @ [''--type'', positional ! 1])
           @ (let artifact = (if hd positional = ''list'' then ''servers'' else ''server'')
              in hd positional # artifact
                 # (if positional ! 2 = artifact then drop 3 positional else drop 2 positional))
           @ params"
proof -
  obtain command a rest where p: "positional = command # a # rest"
    using assms(2) by (cases positional; cases "tl positional") auto
  have a: "a \<in> set server_types" using assms(2) p by simp
  show ?thesis
  proof (cases rest)
    case Nil
    then show ?thesis
      using assms(1) p a by (simp add: dispatch_def server_case_def Let_def)
  next
    case (Cons r rest')
    then show ?thesis
      using assms(1) p a
      by (auto simp: dispatch_def server_case_def stop_case_def Let_def
            split: if_splits option.splits dest: resolve_parser_argv)
  qed
qed


lemma classify_append:
  "\<not> pending xs \<Longrightarrow>
     classify_tokens (xs @ ys)
       = (case classify_tokens xs of (o1, p1, q1) \<Rightarrow>
            (case classify_tokens ys of (o2, p2, q2) \<Rightarrow> (o1 @ o2, p1 @ p2, q1 @ q2)))"
proof (induction xs rule: classify_tokens.induct)
  case 1
  then show ?case by (simp split: prod.splits)
next
  case (2 tok rest)
  show ?case
  proof (cases "startswith tok ''-'' \<and> tok \<noteq> ''--debug''")
    case True
    then obtain arg rest' where r: "rest = arg # rest'" and np: "\<not> pending rest'"
      using "2.prems" by (cases rest) auto
    then show ?thesis using True "2.IH"(1) by (simp split: prod.splits)
  next
    case False
    then have np: "\<not> pending rest" using "2.prems" by auto
    show ?thesis
    proof (cases "startswith tok ''-''")
      case True
      then have "tok = ''--debug''" using False by simp
      then show ?thesis using True np "2.IH"(2) by (simp split: prod.splits)
    next
      case nodash: False
      then show ?thesis using np "2.IH"(3,4) by (simp split: prod.splits)
    qed
  qed
qed

lemma pending_append: "\<not> pending xs \<Longrightarrow> pending (xs @ ys) = pending ys"
proof (induction xs rule: pending.induct)
  case 1
  then show ?case by simp
next
  case (2 tok rest)
  then show ?case by (cases rest) (auto split: if_splits)
qed

lemma classify_swap:
  assumes "\<not> pending pre" and "\<not> pending u" and "\<not> pending v" and "separate_classes u v"
  shows "classify_tokens (pre @ v @ u @ post) = classify_tokens (pre @ u @ v @ post)"
proof -
  obtain o1 p1 q1 where cu: "classify_tokens u = (o1, p1, q1)" by (cases "classify_tokens u")
  obtain o2 p2 q2 where cv: "classify_tokens v = (o2, p2, q2)" by (cases "classify_tokens v")
  have sep: "(o1 = [] \<or> o2 = []) \<and> (p1 = [] \<or> p2 = []) \<and> (q1 = [] \<or> q2 = [])"
    using assms(4) cu cv by (simp add: separate_classes_def)
  have "classify_tokens (v @ u @ post) = classify_tokens (u @ v @ post)"
    using classify_append[OF assms(2), of "v @ post"] classify_append[OF assms(3), of "u @ post"]
      classify_append[OF assms(2), of post] classify_append[OF assms(3), of post] cu cv sep
    by (auto split: prod.splits)
  then show ?thesis
    using classify_append[OF assms(1), of "v @ u @ post"]
      classify_append[OF assms(1), of "u @ v @ post"] by simp
qed

text \<open>
  C7, as stated, fails: in \<^verbatim>\<open>--credentials -admin:pw list forests\<close> the token
  \<^verbatim>\<open>-admin:pw\<close> begins with \<^verbatim>\<open>-\<close> and is not \<^verbatim>\<open>--debug\<close>, yet the token after
  it, \<^verbatim>\<open>list\<close>, is positional and not among the options: \<^verbatim>\<open>-admin:pw\<close> was itself
  taken as the argument of \<^verbatim>\<open>--credentials\<close>.
\<close>

theorem run_option_argument_counterexample:
  "normalize [''--credentials'', ''-admin:pw'', ''list'', ''forests'']
     = ([''--credentials'', ''-admin:pw''], [], [''list'', ''forests''])
   \<and> startswith ([''--credentials'', ''-admin:pw'', ''list'', ''forests''] ! 1) ''-''
   \<and> [''--credentials'', ''-admin:pw'', ''list'', ''forests''] ! 1 \<noteq> ''--debug''
   \<and> [''--credentials'', ''-admin:pw'', ''list'', ''forests''] ! 2
       \<notin> set (fst (normalize [''--credentials'', ''-admin:pw'', ''list'', ''forests'']))"
  by (simp add: normalize_def startswith_def)


text \<open>
  C7, amended. The loop classifies the tokens as \<open>classify_tokens\<close> describes. What
  \<^verbatim>\<open>run\<close> does depends on the tokens only through the three lists: token lists with
  the same classification give the same outcome, and so does exchanging two neighbouring
  runs of complete tokens that have no class in common. When \<^verbatim>\<open>run\<close> reaches a parser,
  the parser receives the options, then the positionals, then the parameters, where for
  a server type in the place of the artifact the options have \<^verbatim>\<open>--type\<close> and the server
  type appended and the positionals are rewritten, and for a lone \<^verbatim>\<open>stop\<close> the
  positional \<^verbatim>\<open>host\<close> is appended.
\<close>

theorem run_normalizes_tokens:
  "normalize argv = classify_tokens argv
   \<and> (\<forall>other. classify_tokens other = classify_tokens argv \<longrightarrow>
         run command_template other = run command_template argv)
   \<and> (\<forall>pre u v post.
         argv = pre @ u @ v @ post \<and> \<not> pending pre \<and> \<not> pending u \<and> \<not> pending v
           \<and> separate_classes u v \<longrightarrow>
         run command_template (pre @ v @ u @ post) = run command_template argv)
   \<and> (\<forall>options params positional parser argv'.
         classify_tokens argv = (options, params, positional)
           \<and> run command_template argv = ParseArgs parser argv' \<longrightarrow>
         (if 1 < length positional \<and> positional ! 1 \<in> set server_types
          then 2 < length positional \<and>
               argv' = (options @ [''--type'', positional ! 1])
                 @ (let artifact = (if hd positional = ''list'' then ''servers'' else ''server'')
                    in hd positional # artifact
                       # (if positional ! 2 = artifact then drop 3 positional
                          else drop 2 positional))
                 @ params
          else argv' = options
                 @ (if positional = [''stop''] then [''stop'', ''host''] else positional)
                 @ params))"
proof (intro conjI allI impI)
  show "normalize argv = classify_tokens argv" by (rule normalize_classify)
next
  fix other assume "classify_tokens other = classify_tokens argv"
  then show "run command_template other = run command_template argv"
    by (simp add: run_def normalize_classify)
next
  fix pre u v post
  assume a: "argv = pre @ u @ v @ post \<and> \<not> pending pre \<and> \<not> pending u \<and> \<not> pending v
           \<and> separate_classes u v"
  then have "classify_tokens (pre @ v @ u @ post) = classify_tokens argv"
    using classify_swap[of pre u v post] by simp
  then show "run command_template (pre @ v @ u @ post) = run command_template argv"
    by (simp add: run_def normalize_classify)
next
  fix options params positional parser argv'
  assume a: "classify_tokens argv = (options, params, positional)
           \<and> run command_template argv = ParseArgs parser argv'"
  then have d: "dispatch command_template (options, params, positional) = ParseArgs parser argv'"
    unfolding run_def normalize_classify by (elim conjE) (erule subst)
  show "if 1 < length positional \<and> positional ! 1 \<in> set server_types
          then 2 < length positional \<and>
               argv' = (options @ [''--type'', positional ! 1])
                 @ (let artifact = (if hd positional = ''list'' then ''servers'' else ''server'')
                    in hd positional # artifact
                       # (if positional ! 2 = artifact then drop 3 positional
                          else drop 2 positional))
                 @ params
          else argv' = options
                 @ (if positional = [''stop''] then [''stop'', ''host''] else positional)
                 @ params"
  proof (cases "1 < length positional \<and> positional ! 1 \<in> set server_types")
    case True
    show ?thesis
      by (subst if_P[OF True]) (rule dispatch_server[OF d True])
  next
    case False
    show ?thesis
      by (subst if_not_P[OF False]) (rule dispatch_plain[OF d False])
  qed
qed

theorem run_normalizes_tokens_witness:
  "normalize [''list'', ''forests'', ''--hostname'', ''h1'', ''x=1'']
     = ([''--hostname'', ''h1''], [''x=1''], [''list'', ''forests''])
   \<and> classify_tokens [''x=1'', ''--hostname'', ''h1'', ''list'', ''forests'']
       = classify_tokens [''list'', ''forests'', ''--hostname'', ''h1'', ''x=1'']
   \<and> run sample_table [''x=1'', ''--hostname'', ''h1'', ''list'', ''forests'']
       = run sample_table [''list'', ''forests'', ''--hostname'', ''h1'', ''x=1'']
   \<and> \<not> pending [] \<and> \<not> pending [''list'', ''forests''] \<and> \<not> pending [''--hostname'', ''h1'']
   \<and> separate_classes [''list'', ''forests''] [''--hostname'', ''h1'']
   \<and> run sample_table ([] @ [''--hostname'', ''h1''] @ [''list'', ''forests''] @ [''x=1''])
       = run sample_table [''list'', ''forests'', ''--hostname'', ''h1'', ''x=1'']
   \<and> run sample_table [''list'', ''forests'', ''--hostname'', ''h1'', ''x=1'']
       = ParseArgs (TParser 1) [''--hostname'', ''h1'', ''list'', ''forests'', ''x=1'']
   \<and> run sample_table [''list'', ''http'', ''--debug'', ''servers'', ''x=1'']
       = ParseArgs (TParser 2) [''--debug'', ''--type'', ''http'', ''list'', ''servers'', ''x=1'']"
proof -
  have ev: "startswith ''list'' ''-'' = False" "startswith ''forests'' ''-'' = False"
    "startswith ''--hostname'' ''-'' = True" "startswith ''x=1'' ''-'' = False"
    "startswith ''http'' ''-'' = False" "startswith ''servers'' ''-'' = False"
    "startswith ''--debug'' ''-'' = True" "startswith ''h1'' ''-'' = False"
    by (simp_all add: startswith_def)
  have n: "normalize [''list'', ''forests'', ''--hostname'', ''h1'', ''x=1'']
     = ([''--hostname'', ''h1''], [''x=1''], [''list'', ''forests''])"
    by (simp add: normalize_def ev)
  have c: "classify_tokens [''x=1'', ''--hostname'', ''h1'', ''list'', ''forests'']
       = classify_tokens [''list'', ''forests'', ''--hostname'', ''h1'', ''x=1'']"
    by (simp add: ev)
  have r1: "run sample_table [''x=1'', ''--hostname'', ''h1'', ''list'', ''forests'']
       = run sample_table [''list'', ''forests'', ''--hostname'', ''h1'', ''x=1'']"
    by (rule run_normalizes_tokens
      [of "[''list'', ''forests'', ''--hostname'', ''h1'', ''x=1'']" sample_table,
       THEN conjunct2, THEN conjunct1, rule_format, OF c])
  have p0: "\<not> pending []" by simp
  have p1: "\<not> pending [''list'', ''forests'']" by (simp add: ev)
  have p2: "\<not> pending [''--hostname'', ''h1'']" by (simp add: ev)
  have sp: "separate_classes [''list'', ''forests''] [''--hostname'', ''h1'']"
    by (simp add: separate_classes_def ev)
  have dec: "[''list'', ''forests'', ''--hostname'', ''h1'', ''x=1'']
      = [] @ [''list'', ''forests''] @ [''--hostname'', ''h1''] @ [''x=1'']" by simp
  have r2: "run sample_table ([] @ [''--hostname'', ''h1''] @ [''list'', ''forests''] @ [''x=1''])
       = run sample_table [''list'', ''forests'', ''--hostname'', ''h1'', ''x=1'']"
    by (rule run_normalizes_tokens
      [of "[''list'', ''forests'', ''--hostname'', ''h1'', ''x=1'']" sample_table,
       THEN conjunct2, THEN conjunct2, THEN conjunct1, rule_format,
       of "[]" "[''list'', ''forests'']" "[''--hostname'', ''h1'']" "[''x=1'']"])
      (intro conjI dec p0 p1 p2 sp)
  have r3: "run sample_table [''list'', ''forests'', ''--hostname'', ''h1'', ''x=1'']
       = ParseArgs (TParser 1) [''--hostname'', ''h1'', ''list'', ''forests'', ''x=1'']"
    by (simp add: run_def n dispatch_def server_case_def stop_case_def resolve_parser_def
          sample_table_def empty_artifact_commands_def server_types_def Let_def)
  have n4: "normalize [''list'', ''http'', ''--debug'', ''servers'', ''x=1'']
     = ([''--debug''], [''x=1''], [''list'', ''http'', ''servers''])"
    by (simp add: normalize_def ev)
  have r4: "run sample_table [''list'', ''http'', ''--debug'', ''servers'', ''x=1'']
       = ParseArgs (TParser 2) [''--debug'', ''--type'', ''http'', ''list'', ''servers'', ''x=1'']"
    by (simp add: run_def n4 dispatch_def server_case_def stop_case_def resolve_parser_def
          sample_table_def empty_artifact_commands_def server_types_def Let_def)
  show ?thesis
    by (intro conjI) (rule n c r1 p0 p1 p2 sp r2 r3 r4)+
qed



end
